theory Spec2Isabelle
  imports Complex_Main "HOL-Library.Multiset"
begin

section \<open>JavaScript values and string primitives\<close>

text \<open>
  The rows come out of the CSV loader (\<open>Papa.parse\<close> with \<open>header\<close> and
  \<open>dynamicTyping\<close>) and are cast to \<open>ElectionResult[]\<close>.  A cell has the type
  the interface declares for it, or it is missing: an empty cell is \<open>null\<close>, a cell
  the row does not reach is \<open>undefined\<close>.  The code tests for both (\<open>!margin\<close>,
  \<open>item.Party ? ... : ''\<close>, \<open>?.\<close>), so a field is a value of its declared type
  or one of the two missing values.

  The numbers of a row are modelled by \<open>real\<close>: the finite values of a JavaScript
  number with their exact order and difference.  Where the code divides (the win rates),
  the result is a \<open>jsnumber\<close>, which has \<open>NaN\<close> and \<open>Infinity\<close>, and the rounding
  to a double is explicit.
  Strings are \<open>string\<close> (8-bit characters); \<open>toLowerCase\<close> folds the letters A to Z.
\<close>

datatype 'a js = Undefined | Null | Val 'a

datatype error = TypeError

text \<open>Truthiness (\<open>ToBoolean\<close>): the missing values, \<open>0\<close>, \<open>''\<close> and \<open>false\<close> are falsy.\<close>

fun truthy_num :: "real js \<Rightarrow> bool" where
  "truthy_num (Val x) = (x \<noteq> 0)"
| "truthy_num _ = False"

fun truthy_str :: "string js \<Rightarrow> bool" where
  "truthy_str (Val s) = (s \<noteq> [])"
| "truthy_str _ = False"

fun truthy_bool :: "bool js \<Rightarrow> bool" where
  "truthy_bool (Val b) = b"
| "truthy_bool _ = False"

text \<open>\<open>a || b\<close> is \<open>a\<close> when \<open>a\<close> is truthy and \<open>b\<close> otherwise.\<close>

definition or_str :: "string js \<Rightarrow> string js \<Rightarrow> string js" where
  "or_str a b = (if truthy_str a then a else b)"

definition or_num :: "real js \<Rightarrow> real js \<Rightarrow> real js" where
  "or_num a b = (if truthy_num a then a else b)"

text \<open>
  Relational operators on a possibly missing number and a number literal: \<open>ToNumber\<close>
  sends \<open>null\<close> to \<open>0\<close> and \<open>undefined\<close> to \<open>NaN\<close>, and every comparison with
  \<open>NaN\<close> is false.
\<close>

fun js_lt :: "real js \<Rightarrow> real \<Rightarrow> bool" where
  "js_lt (Val x) c = (x < c)"
| "js_lt Null c = (0 < c)"
| "js_lt Undefined c = False"

definition upper_letters :: string where
  "upper_letters = ''ABCDEFGHIJKLMNOPQRSTUVWXYZ''"

definition lower_letters :: string where
  "lower_letters = ''abcdefghijklmnopqrstuvwxyz''"

definition lower_char :: "char \<Rightarrow> char" where
  "lower_char c = (case map_of (zip upper_letters lower_letters) c of Some d \<Rightarrow> d | None \<Rightarrow> c)"

definition toLowerCase :: "string \<Rightarrow> string" where
  "toLowerCase s = map lower_char s"

text \<open>White space removed by \<open>trim\<close>: TAB, LF, VT, FF, CR, space and the no-break space.\<close>

definition is_space :: "char \<Rightarrow> bool" where
  "is_space c = (c \<in> set [CHR 0x09, CHR 0x0A, CHR 0x0B, CHR 0x0C, CHR 0x0D, CHR 0x20, CHR 0xA0])"

definition trim :: "string \<Rightarrow> string" where
  "trim s = rev (dropWhile is_space (rev (dropWhile is_space s)))"

fun startsWith :: "string \<Rightarrow> string \<Rightarrow> bool" where
  "startsWith s [] = True"
| "startsWith [] (p # ps) = False"
| "startsWith (c # cs) (p # ps) = (c = p \<and> startsWith cs ps)"

text \<open>\<open>s.includes(t)\<close>: \<open>t\<close> occurs in \<open>s\<close> as a contiguous substring.\<close>

fun includes_str :: "string \<Rightarrow> string \<Rightarrow> bool" where
  "includes_str [] t = (t = [])"
| "includes_str (c # cs) t = (startsWith (c # cs) t \<or> includes_str cs t)"

text \<open>
  \<open>s.replace(/p/g, '')\<close> for a literal pattern \<open>p\<close>: every occurrence, found from left
  to right without overlap, is removed.
\<close>

function remove_all :: "string \<Rightarrow> string \<Rightarrow> string" where
  "remove_all p [] = []"
| "remove_all p (c # cs) =
     (if p \<noteq> [] \<and> startsWith (c # cs) p then remove_all p (drop (length p - 1) cs)
      else c # remove_all p cs)"
  by pat_completeness auto
termination
  by (relation "measure (\<lambda>(p, s). length s)") auto

text \<open>
  \<open>s.replace(/p/i, '')\<close> for a literal pattern \<open>p\<close>: the first occurrence, compared
  without regard to case, is removed.
\<close>

fun remove_first_ci :: "string \<Rightarrow> string \<Rightarrow> string" where
  "remove_first_ci p [] = []"
| "remove_first_ci p (c # cs) =
     (if startsWith (toLowerCase (c # cs)) (toLowerCase p) then drop (length p) (c # cs)
      else c # remove_first_ci p cs)"

section \<open>Name normalizer (ConstituencyMap, \<open>getNormalizedName\<close>)\<close>

text \<open>The properties of a GeoJSON feature that the normalizer reads.\<close>

record Feature =
  AC_NAME :: "string js"
  ac_name :: "string js"
  AC_NO :: "real js"
  ac_no :: "real js"

definition NAME_MAPPING :: "(string \<times> string) list" where
  "NAME_MAPPING = [
  (''gummidipoondi'', ''gummidipundi''),
  (''tiruvottiyur'', ''thiruvottiyur''),
  (''arakkonam'', ''arakonam''),
  (''sholingur'', ''sholinghur''),
  (''dr.radhakrishnan naga'', ''dr. radhakrishnan nagar''),
  (''kilvaithinankuppam(sc'', ''kilvaithinankuppam''),
  (''gudiyattam'', ''gudiyatham''),
  (''chepauk-thiruvalliken'', ''chepauk-thiruvallikeni''),
  (''thiyagarayanagar'', ''theayagaraya nagar''),
  (''vaniyambadi'', ''vaniayambadi''),
  (''madurantakam'', ''maduranthakam''),
  (''palacodu'', ''palacode''),
  (''rishivandiyam'', ''rishivandiam''),
  (''viluppuram'', ''villupuram''),
  (''ulundurpettai'', ''ulundurpet''),
  (''edappadi'', ''edapadi''),
  (''tiruchengodu'', ''tiruchengode''),
  (''senthamangalam'', ''sendamangalam''),
  (''mettuppalayam'', ''mettupalayam''),
  (''sirkazhi'', ''sirkali''),
  (''modakkurichi'', ''modakurichi''),
  (''thiruvidaimarudur'', ''thiruvidamarudur''),
  (''coimbatore(north)'', ''coimbatore north''),
  (''coimbatore(south)'', ''coimbatore south''),
  (''udumalaipettai'', ''udumalpet''),
  (''thiruverumbur'', ''thiruverambur''),
  (''orathanadu'', ''orathanad''),
  (''thiruthuraipoondi'', ''thiruthuraipundi''),
  (''nilakkottai'', ''nilakottai''),
  (''aranthangi'', ''arantangi''),
  (''aruppukkottai'', ''aruppukottai''),
  (''mudhukulathur'', ''mudukulathur''),
  (''palayamkottai'', ''palayamcottai'')]"

text \<open>
  \<open>NAME_MAPPING[normalized] || normalized\<close>: the table's entry when there is one (every
  entry is a non-empty string), the cleaned name itself otherwise.  The table is read as
  its own 33 entries; names inherited from \<open>Object.prototype\<close> are not feature
  names.
\<close>

definition mapped_name :: "string \<Rightarrow> string" where
  "mapped_name normalized =
     (case map_of NAME_MAPPING normalized of
        Some v \<Rightarrow> (if v \<noteq> [] then v else normalized)
      | None \<Rightarrow> normalized)"

definition getNormalizedName :: "Feature \<Rightarrow> string" where
  "getNormalizedName props =
     (let name = or_str (AC_NAME props) (ac_name props);
          acNo = or_num (AC_NO props) (ac_no props)
      in case name of
           Val n \<Rightarrow>
             if n = [] then []
             else if includes_str (toLowerCase n) ''tiruchirappalli'' \<and> acNo = Val 140
               then ''tiruchirapalli (west)''
             else if includes_str (toLowerCase n) ''tiruchirappalli'' \<and> acNo = Val 141
               then ''tiruchirapalli (east)''
             else mapped_name
                    (trim (remove_all ''(sc'' (remove_all ''(st)'' (remove_all ''(sc)''
                       (toLowerCase n)))))
         | _ \<Rightarrow> [])"

section \<open>Record model (\<open>types/election\<close>, \<open>ElectionResult\<close>)\<close>

text \<open>
  One candidate's result row.  The interface declares 54 columns; the record has the
  ones that the filter engine, the sortable table columns, the reconciliation index and
  the aggregations read.
\<close>

record ElectionResult =
  Constituency_Name :: "string js"
  Constituency_Type :: "string js"
  District_Name :: "string js"
  Candidate :: "string js"
  Sex :: "string js"
  Age :: "real js"
  MyNeta_education :: "string js"
  TCPD_Prof_Main :: "string js"
  Party :: "string js"
  Votes :: "real js"
  N_Cand :: "real js"
  Electors :: "real js"
  Turnout_Percentage :: "real js"
  Vote_Share_Percentage :: "real js"
  Margin :: "real js"
  Margin_Percentage :: "real js"
  Contested :: "real js"
  No_Terms :: "real js"
  Deposit_Lost :: "string js"
  Sub_Region :: "string js"
  Position :: "real js"
  Year :: "real js"
  Turncoat :: "bool js"
  Incumbent :: "bool js"
  Recontest :: "bool js"
  Constituency_Name_TA :: "string js"
  District_Name_TA :: "string js"
  Party_TA :: "string js"
  MyNeta_education_TA :: "string js"

text \<open>A row with every cell missing; concrete rows are written as updates of it.\<close>

definition blank_row :: ElectionResult where
  "blank_row = \<lparr>Constituency_Name = Undefined, Constituency_Type = Undefined,
     District_Name = Undefined, Candidate = Undefined, Sex = Undefined, Age = Undefined,
     MyNeta_education = Undefined, TCPD_Prof_Main = Undefined, Party = Undefined,
     Votes = Undefined, N_Cand = Undefined, Electors = Undefined,
     Turnout_Percentage = Undefined, Vote_Share_Percentage = Undefined, Margin = Undefined,
     Margin_Percentage = Undefined, Contested = Undefined, No_Terms = Undefined,
     Deposit_Lost = Undefined, Sub_Region = Undefined, Position = Undefined,
     Year = Undefined, Turncoat = Undefined, Incumbent = Undefined, Recontest = Undefined,
     Constituency_Name_TA = Undefined, District_Name_TA = Undefined, Party_TA = Undefined,
     MyNeta_education_TA = Undefined\<rparr>"

section \<open>Filter engine (MasterSheet, \<open>processedData\<close>)\<close>

datatype SortKey =
    K_Constituency_Name | K_Constituency_Type | K_District_Name | K_Candidate | K_Sex
  | K_Age | K_MyNeta_education | K_TCPD_Prof_Main | K_Party | K_Votes | K_N_Cand
  | K_Electors | K_Turnout_Percentage | K_Vote_Share_Percentage | K_Margin
  | K_Margin_Percentage | K_Contested | K_No_Terms | K_Deposit_Lost | K_Sub_Region
  | K_Position | K_Year | K_Turncoat | K_Incumbent | K_Recontest
  | K_Constituency_Name_TA | K_District_Name_TA | K_Party_TA | K_MyNeta_education_TA

datatype SortDirection = Asc | Desc

record SortConfig =
  key :: SortKey
  direction :: SortDirection

text \<open>The component's filter state: one value per facet, \<open>All\<close> when the facet is unset.\<close>

record FilterState =
  searchTerm :: string
  constituencyType :: string
  ageRange :: string
  selectedYear :: string
  selectedDistrict :: string
  selectedConstituency :: string
  selectedParty :: string
  selectedPosition :: string
  selectedGender :: string
  marginRange :: string
  voteShareRange :: string
  selectedAlliance :: string
  voteCountRange :: string
  winnersOnly :: bool
  selectedCategory :: string
  selectedEducation :: string
  sortConfig :: "SortConfig option"

fun js_gt :: "real js \<Rightarrow> real \<Rightarrow> bool" where
  "js_gt (Val x) c = (x > c)"
| "js_gt Null c = (0 > c)"
| "js_gt Undefined c = False"

fun js_le :: "real js \<Rightarrow> real \<Rightarrow> bool" where
  "js_le (Val x) c = (x \<le> c)"
| "js_le Null c = (0 \<le> c)"
| "js_le Undefined c = False"

fun js_ge :: "real js \<Rightarrow> real \<Rightarrow> bool" where
  "js_ge (Val x) c = (x \<ge> c)"
| "js_ge Null c = (0 \<ge> c)"
| "js_ge Undefined c = False"

text \<open>
  \<open>parseInt(s)\<close> with no radix: leading white space and a sign are skipped, the
  prefix \<open>0x\<close> selects base 16, the longest run of digits is read; \<open>None\<close> is
  \<open>NaN\<close> (no digit to read).
\<close>

definition digit_value :: "char \<Rightarrow> nat option" where
  "digit_value c = map_of (zip ''0123456789abcdefABCDEF''
     [0, 1, 2, 3, 4, 5, 6, 7, 8, 9, 10, 11, 12, 13, 14, 15, 10, 11, 12, 13, 14, 15]) c"

definition is_digit :: "nat \<Rightarrow> char \<Rightarrow> bool" where
  "is_digit radix c = (case digit_value c of Some d \<Rightarrow> d < radix | None \<Rightarrow> False)"

definition digits_value :: "nat \<Rightarrow> string \<Rightarrow> nat" where
  "digits_value radix ds = foldl (\<lambda>acc c. acc * radix + (case digit_value c of Some d \<Rightarrow> d | None \<Rightarrow> 0)) 0 ds"

definition parseInt :: "string \<Rightarrow> real option" where
  "parseInt s =
     (let s1 = dropWhile is_space s;
          neg = startsWith s1 ''-'';
          s2 = (if startsWith s1 ''-'' \<or> startsWith s1 ''+'' then drop 1 s1 else s1);
          hex = (startsWith s2 ''0x'' \<or> startsWith s2 ''0X'');
          radix = (if hex then 16 else 10);
          s3 = (if hex then drop 2 s2 else s2);
          ds = takeWhile (is_digit radix) s3
      in if ds = [] then None
         else Some ((if neg then - 1 else 1) * real (digits_value radix ds)))"

text \<open>\<open>field?.toLowerCase().includes(lowerTerm)\<close>: false on a missing field.\<close>

definition lower_includes :: "string js \<Rightarrow> string \<Rightarrow> bool" where
  "lower_includes field lowerTerm =
     (case field of Val s \<Rightarrow> includes_str (toLowerCase s) lowerTerm | _ \<Rightarrow> False)"

definition searchMatches :: "string \<Rightarrow> ElectionResult \<Rightarrow> bool" where
  "searchMatches lowerTerm item =
     (lower_includes (Constituency_Name item) lowerTerm \<or>
      lower_includes (Candidate item) lowerTerm \<or>
      lower_includes (Party item) lowerTerm \<or>
      lower_includes (District_Name item) lowerTerm \<or>
      lower_includes (Constituency_Name_TA item) lowerTerm \<or>
      lower_includes (Party_TA item) lowerTerm \<or>
      lower_includes (District_Name_TA item) lowerTerm)"

definition positionMatches :: "string \<Rightarrow> ElectionResult \<Rightarrow> bool" where
  "positionMatches pos item =
     (if pos = ''DepositLost'' then js_lt (Vote_Share_Percentage item) 16.66
      else (case parseInt pos of
              Some n \<Rightarrow> Position item = Val n
            | None \<Rightarrow> False))"

definition ageMatches :: "string \<Rightarrow> ElectionResult \<Rightarrow> bool" where
  "ageMatches bucket item =
     (let age = Age item in
      if \<not> truthy_num age then False
      else if bucket = ''25-40'' then js_ge age 25 \<and> js_le age 40
      else if bucket = ''41-60'' then js_ge age 41 \<and> js_le age 60
      else if bucket = ''61+'' then js_gt age 60
      else True)"

definition marginMatches :: "string \<Rightarrow> ElectionResult \<Rightarrow> bool" where
  "marginMatches bucket item =
     (let margin = Margin item in
      if \<not> truthy_num margin then False
      else if bucket = ''High'' then js_gt margin 50000
      else if bucket = ''Medium'' then js_ge margin 10000 \<and> js_le margin 50000
      else if bucket = ''Low'' then js_lt margin 10000
      else True)"

definition voteShareMatches :: "string \<Rightarrow> ElectionResult \<Rightarrow> bool" where
  "voteShareMatches bucket item =
     (let share = Vote_Share_Percentage item in
      if \<not> truthy_num share then False
      else if bucket = ''High'' then js_gt share 50
      else if bucket = ''Medium'' then js_ge share 30 \<and> js_le share 50
      else if bucket = ''Low'' then js_lt share 30
      else True)"

text \<open>\<open>item.Party ? item.Party.trim() : ''\<close>\<close>

definition trimmedParty :: "ElectionResult \<Rightarrow> string" where
  "trimmedParty item =
     (case Party item of Val p \<Rightarrow> (if p \<noteq> [] then trim p else []) | _ \<Rightarrow> [])"

definition allianceMatches :: "string \<Rightarrow> ElectionResult \<Rightarrow> bool" where
  "allianceMatches alliance item =
     (let party = trimmedParty item in
      if alliance = ''DMK+'' then
        party \<in> set [''DMK'', ''INC'', ''VCK'', ''CPI'', ''CPM'', ''CPI(M)'', ''IUML'', ''KMDK'',
                      ''MDMK'', ''MMK'']
      else if alliance = ''ADMK+'' then
        party \<in> set [''ADMK'', ''BJP'', ''PMK'', ''TMC'', ''TMC(M)'', ''AMMK'', ''AIADMK'']
      else if alliance = ''Others'' then
        party \<notin> set [''DMK'', ''INC'', ''VCK'', ''CPI'', ''CPM'', ''CPI(M)'', ''IUML'', ''KMDK'',
                      ''MDMK'', ''MMK'', ''ADMK'', ''BJP'', ''PMK'', ''TMC'', ''TMC(M)'', ''AMMK'',
                      ''AIADMK'']
      else True)"

definition voteCountMatches :: "string \<Rightarrow> ElectionResult \<Rightarrow> bool" where
  "voteCountMatches bucket item =
     (let votes = Votes item in
      if \<not> truthy_num votes then False
      else if bucket = ''>1L'' then js_gt votes 100000
      else if bucket = ''50k-1L'' then js_ge votes 50000 \<and> js_le votes 100000
      else if bucket = ''10k-50k'' then js_ge votes 10000 \<and> js_le votes 50000
      else if bucket = ''<10k'' then js_lt votes 10000
      else True)"

text \<open>
  \<open>String(val)\<close> of a flag, and the truth test of the category facet,
  \<open>val === true || val === 1 || String(val).toLowerCase() === 'true'\<close>.  The flags
  are booleans, so the middle test never holds.
\<close>

fun String_bool :: "bool js \<Rightarrow> string" where
  "String_bool (Val True) = ''true''"
| "String_bool (Val False) = ''false''"
| "String_bool Null = ''null''"
| "String_bool Undefined = ''undefined''"

definition isTrue :: "bool js \<Rightarrow> bool" where
  "isTrue val = (val = Val True \<or> toLowerCase (String_bool val) = ''true'')"

definition categoryMatches :: "string \<Rightarrow> ElectionResult \<Rightarrow> bool" where
  "categoryMatches category item =
     (if category = ''Incumbent'' then isTrue (Incumbent item)
      else if category = ''Turncoat'' then isTrue (Turncoat item)
      else if category = ''Recontest'' then isTrue (Recontest item)
      else True)"

text \<open>
  \<open>Array.prototype.filter\<close> with a callback that can throw: the first row on which
  the callback throws ends the whole computation with that exception.
\<close>

fun filterE :: "('a \<Rightarrow> error + bool) \<Rightarrow> 'a list \<Rightarrow> error + 'a list" where
  "filterE p [] = Inr []"
| "filterE p (x # xs) =
     (case p x of
        Inl e \<Rightarrow> Inl e
      | Inr b \<Rightarrow> (case filterE p xs of
                    Inl e \<Rightarrow> Inl e
                  | Inr ys \<Rightarrow> Inr (if b then x # ys else ys)))"

text \<open>
  \<open>item.Year.toString() === selectedYear\<close>: reading \<open>toString\<close> of a missing year
  is a \<open>TypeError\<close>.  \<open>Number.prototype.toString\<close> is the runtime's; it is the
  parameter \<open>numToString\<close>.
\<close>

definition yearMatches :: "(real \<Rightarrow> string) \<Rightarrow> string \<Rightarrow> ElectionResult \<Rightarrow> error + bool" where
  "yearMatches numToString year item =
     (case Year item of
        Val y \<Rightarrow> Inr (numToString y = year)
      | _ \<Rightarrow> Inl TypeError)"

subsection \<open>Sorting\<close>

text \<open>
  \<open>a[sortConfig.key]\<close> is a value of any type; the comparator looks at its type at
  run time.
\<close>

datatype jsval = JUndefined | JNull | JNum real | JStr string | JBool bool

fun of_num :: "real js \<Rightarrow> jsval" where
  "of_num Undefined = JUndefined"
| "of_num Null = JNull"
| "of_num (Val x) = JNum x"

fun of_str :: "string js \<Rightarrow> jsval" where
  "of_str Undefined = JUndefined"
| "of_str Null = JNull"
| "of_str (Val s) = JStr s"

fun of_bool :: "bool js \<Rightarrow> jsval" where
  "of_bool Undefined = JUndefined"
| "of_bool Null = JNull"
| "of_bool (Val b) = JBool b"

fun field_value :: "SortKey \<Rightarrow> ElectionResult \<Rightarrow> jsval" where
  "field_value K_Constituency_Name r = of_str (Constituency_Name r)"
| "field_value K_Constituency_Type r = of_str (Constituency_Type r)"
| "field_value K_District_Name r = of_str (District_Name r)"
| "field_value K_Candidate r = of_str (Candidate r)"
| "field_value K_Sex r = of_str (Sex r)"
| "field_value K_Age r = of_num (Age r)"
| "field_value K_MyNeta_education r = of_str (MyNeta_education r)"
| "field_value K_TCPD_Prof_Main r = of_str (TCPD_Prof_Main r)"
| "field_value K_Party r = of_str (Party r)"
| "field_value K_Votes r = of_num (Votes r)"
| "field_value K_N_Cand r = of_num (N_Cand r)"
| "field_value K_Electors r = of_num (Electors r)"
| "field_value K_Turnout_Percentage r = of_num (Turnout_Percentage r)"
| "field_value K_Vote_Share_Percentage r = of_num (Vote_Share_Percentage r)"
| "field_value K_Margin r = of_num (Margin r)"
| "field_value K_Margin_Percentage r = of_num (Margin_Percentage r)"
| "field_value K_Contested r = of_num (Contested r)"
| "field_value K_No_Terms r = of_num (No_Terms r)"
| "field_value K_Deposit_Lost r = of_str (Deposit_Lost r)"
| "field_value K_Sub_Region r = of_str (Sub_Region r)"
| "field_value K_Position r = of_num (Position r)"
| "field_value K_Year r = of_num (Year r)"
| "field_value K_Turncoat r = of_bool (Turncoat r)"
| "field_value K_Incumbent r = of_bool (Incumbent r)"
| "field_value K_Recontest r = of_bool (Recontest r)"
| "field_value K_Constituency_Name_TA r = of_str (Constituency_Name_TA r)"
| "field_value K_District_Name_TA r = of_str (District_Name_TA r)"
| "field_value K_Party_TA r = of_str (Party_TA r)"
| "field_value K_MyNeta_education_TA r = of_str (MyNeta_education_TA r)"

text \<open>\<open>String(v)\<close>; the text of a number is the runtime's (\<open>numToString\<close>).\<close>

fun String_val :: "(real \<Rightarrow> string) \<Rightarrow> jsval \<Rightarrow> string" where
  "String_val numToString JUndefined = ''undefined''"
| "String_val numToString JNull = ''null''"
| "String_val numToString (JNum x) = numToString x"
| "String_val numToString (JStr s) = s"
| "String_val numToString (JBool b) = (if b then ''true'' else ''false'')"

fun is_nullish :: "jsval \<Rightarrow> bool" where
  "is_nullish JUndefined = True"
| "is_nullish JNull = True"
| "is_nullish _ = False"

text \<open>
  The comparator handed to \<open>sort\<close>.  \<open>String.prototype.localeCompare\<close> depends on
  the host's locale; it is the parameter \<open>localeCompare\<close>, which returns a negative
  number, zero or a positive number.
\<close>

definition compareValues ::
  "(string \<Rightarrow> string \<Rightarrow> real) \<Rightarrow> (real \<Rightarrow> string) \<Rightarrow> SortDirection \<Rightarrow> jsval \<Rightarrow> jsval \<Rightarrow> real"
where
  "compareValues localeCompare numToString dir aValue bValue =
     (if aValue = bValue then 0
      else if is_nullish aValue then 1
      else if is_nullish bValue then - 1
      else (case (aValue, bValue) of
              (JNum x, JNum y) \<Rightarrow> (if dir = Asc then x - y else y - x)
            | _ \<Rightarrow>
                (if dir = Asc
                 then localeCompare (String_val numToString aValue) (String_val numToString bValue)
                 else localeCompare (String_val numToString bValue) (String_val numToString aValue))))"

definition compareRows ::
  "(string \<Rightarrow> string \<Rightarrow> real) \<Rightarrow> (real \<Rightarrow> string) \<Rightarrow> SortConfig \<Rightarrow>
   ElectionResult \<Rightarrow> ElectionResult \<Rightarrow> real"
where
  "compareRows localeCompare numToString cfg a b =
     compareValues localeCompare numToString (direction cfg)
       (field_value (key cfg) a) (field_value (key cfg) b)"

text \<open>
  \<open>Array.prototype.sort(comparefn)\<close>.  The language standard (since ES2019) requires
  the sort to be stable and, for a consistent comparator, to order the elements by it;
  that result is unique, and it is the one a stable insertion sort computes: each element
  is put in front of the first element that it does not compare greater than.
\<close>

fun insertBy :: "('a \<Rightarrow> 'a \<Rightarrow> real) \<Rightarrow> 'a \<Rightarrow> 'a list \<Rightarrow> 'a list" where
  "insertBy cmp x [] = [x]"
| "insertBy cmp x (y # ys) = (if cmp x y \<le> 0 then x # y # ys else y # insertBy cmp x ys)"

definition array_sort :: "('a \<Rightarrow> 'a \<Rightarrow> real) \<Rightarrow> 'a list \<Rightarrow> 'a list" where
  "array_sort cmp xs = foldr (insertBy cmp) xs []"

subsection \<open>The pipeline\<close>

text \<open>The initial state of the component: no search term, every facet \<open>All\<close>, no sort.\<close>

definition initialState :: FilterState where
  "initialState = \<lparr>searchTerm = [], constituencyType = ''All'', ageRange = ''All'',
     selectedYear = ''All'', selectedDistrict = ''All'', selectedConstituency = ''All'',
     selectedParty = ''All'', selectedPosition = ''All'', selectedGender = ''All'',
     marginRange = ''All'', voteShareRange = ''All'', selectedAlliance = ''All'',
     voteCountRange = ''All'', winnersOnly = False, selectedCategory = ''All'',
     selectedEducation = ''All'', sortConfig = None\<rparr>"

text \<open>Search, district, constituency, party, position and constituency type.\<close>

definition facetsBeforeYear :: "FilterState \<Rightarrow> ElectionResult list \<Rightarrow> ElectionResult list" where
  "facetsBeforeYear st data =
     (let result = data;
          result = (if searchTerm st \<noteq> []
                    then filter (searchMatches (toLowerCase (searchTerm st))) result
                    else result);
          result = (if selectedDistrict st \<noteq> ''All''
                    then filter (\<lambda>item. or_str (District_Name_TA item) (District_Name item)
                                          = Val (selectedDistrict st)) result
                    else result);
          result = (if selectedConstituency st \<noteq> ''All''
                    then filter (\<lambda>item. or_str (Constituency_Name_TA item) (Constituency_Name item)
                                          = Val (selectedConstituency st)) result
                    else result);
          result = (if selectedParty st \<noteq> ''All''
                    then filter (\<lambda>item. or_str (Party_TA item) (Party item)
                                          = Val (selectedParty st)) result
                    else result);
          result = (if selectedPosition st \<noteq> ''All''
                    then filter (positionMatches (selectedPosition st)) result
                    else result);
          result = (if constituencyType st \<noteq> ''All''
                    then filter (\<lambda>item. Constituency_Type item = Val (constituencyType st)) result
                    else result)
      in result)"

definition yearFacet ::
  "(real \<Rightarrow> string) \<Rightarrow> FilterState \<Rightarrow> ElectionResult list \<Rightarrow> error + ElectionResult list"
where
  "yearFacet numToString st result =
     (if selectedYear st \<noteq> ''All''
      then filterE (yearMatches numToString (selectedYear st)) result
      else Inr result)"

text \<open>
  Age, gender, margin, vote share, alliance, vote count, category, education and the
  winners-only override.
\<close>

definition facetsAfterYear :: "FilterState \<Rightarrow> ElectionResult list \<Rightarrow> ElectionResult list" where
  "facetsAfterYear st data =
     (let result = data;
          result = (if ageRange st \<noteq> ''All''
                    then filter (ageMatches (ageRange st)) result else result);
          result = (if selectedGender st \<noteq> ''All''
                    then filter (\<lambda>item. Sex item = Val (selectedGender st)) result
                    else result);
          result = (if marginRange st \<noteq> ''All''
                    then filter (marginMatches (marginRange st)) result else result);
          result = (if voteShareRange st \<noteq> ''All''
                    then filter (voteShareMatches (voteShareRange st)) result else result);
          result = (if selectedAlliance st \<noteq> ''All''
                    then filter (allianceMatches (selectedAlliance st)) result else result);
          result = (if voteCountRange st \<noteq> ''All''
                    then filter (voteCountMatches (voteCountRange st)) result else result);
          result = (if selectedCategory st \<noteq> ''All''
                    then filter (categoryMatches (selectedCategory st)) result else result);
          result = (if selectedEducation st \<noteq> ''All''
                    then filter (\<lambda>item. or_str (MyNeta_education_TA item) (MyNeta_education item)
                                          = Val (selectedEducation st)) result
                    else result);
          result = (if winnersOnly st
                    then filter (\<lambda>item. Position item = Val 1) result else result)
      in result)"

definition sortStep ::
  "(string \<Rightarrow> string \<Rightarrow> real) \<Rightarrow> (real \<Rightarrow> string) \<Rightarrow> FilterState \<Rightarrow>
   ElectionResult list \<Rightarrow> ElectionResult list"
where
  "sortStep localeCompare numToString st result =
     (case sortConfig st of
        Some cfg \<Rightarrow> array_sort (compareRows localeCompare numToString cfg) result
      | None \<Rightarrow> result)"

definition processedData ::
  "(string \<Rightarrow> string \<Rightarrow> real) \<Rightarrow> (real \<Rightarrow> string) \<Rightarrow> FilterState \<Rightarrow>
   ElectionResult list \<Rightarrow> error + ElectionResult list"
where
  "processedData localeCompare numToString st data =
     (case yearFacet numToString st (facetsBeforeYear st data) of
        Inl e \<Rightarrow> Inl e
      | Inr result \<Rightarrow> Inr (sortStep localeCompare numToString st (facetsAfterYear st result)))"

subsection \<open>What the pipeline computes, as one predicate\<close>

text \<open>
  The facets are filters one after the other, so the rows that survive are the rows
  that satisfy every facet that is set.  The three predicates below say so for the
  facets before the year facet, the year facet and the facets after it; the lemmas
  \<open>facetsBeforeYear_filter\<close>, \<open>yearFacet_cases\<close> and \<open>facetsAfterYear_filter\<close>
  prove that the pipeline computes them.
\<close>

definition passesBeforeYear :: "FilterState \<Rightarrow> ElectionResult \<Rightarrow> bool" where
  "passesBeforeYear st item =
     ((searchTerm st \<noteq> [] \<longrightarrow> searchMatches (toLowerCase (searchTerm st)) item) \<and>
      (selectedDistrict st \<noteq> ''All'' \<longrightarrow>
         or_str (District_Name_TA item) (District_Name item) = Val (selectedDistrict st)) \<and>
      (selectedConstituency st \<noteq> ''All'' \<longrightarrow>
         or_str (Constituency_Name_TA item) (Constituency_Name item) = Val (selectedConstituency st)) \<and>
      (selectedParty st \<noteq> ''All'' \<longrightarrow>
         or_str (Party_TA item) (Party item) = Val (selectedParty st)) \<and>
      (selectedPosition st \<noteq> ''All'' \<longrightarrow> positionMatches (selectedPosition st) item) \<and>
      (constituencyType st \<noteq> ''All'' \<longrightarrow> Constituency_Type item = Val (constituencyType st)))"

definition hasYear :: "ElectionResult \<Rightarrow> bool" where
  "hasYear item = (case Year item of Val y \<Rightarrow> True | _ \<Rightarrow> False)"

definition yearPasses :: "(real \<Rightarrow> string) \<Rightarrow> FilterState \<Rightarrow> ElectionResult \<Rightarrow> bool" where
  "yearPasses numToString st item =
     (selectedYear st \<noteq> ''All'' \<longrightarrow> yearMatches numToString (selectedYear st) item = Inr True)"

definition passesAfterYear :: "FilterState \<Rightarrow> ElectionResult \<Rightarrow> bool" where
  "passesAfterYear st item =
     ((ageRange st \<noteq> ''All'' \<longrightarrow> ageMatches (ageRange st) item) \<and>
      (selectedGender st \<noteq> ''All'' \<longrightarrow> Sex item = Val (selectedGender st)) \<and>
      (marginRange st \<noteq> ''All'' \<longrightarrow> marginMatches (marginRange st) item) \<and>
      (voteShareRange st \<noteq> ''All'' \<longrightarrow> voteShareMatches (voteShareRange st) item) \<and>
      (selectedAlliance st \<noteq> ''All'' \<longrightarrow> allianceMatches (selectedAlliance st) item) \<and>
      (voteCountRange st \<noteq> ''All'' \<longrightarrow> voteCountMatches (voteCountRange st) item) \<and>
      (selectedCategory st \<noteq> ''All'' \<longrightarrow> categoryMatches (selectedCategory st) item) \<and>
      (selectedEducation st \<noteq> ''All'' \<longrightarrow>
         or_str (MyNeta_education_TA item) (MyNeta_education item) = Val (selectedEducation st)) \<and>
      (winnersOnly st \<longrightarrow> Position item = Val 1))"

definition passes :: "(real \<Rightarrow> string) \<Rightarrow> FilterState \<Rightarrow> ElectionResult \<Rightarrow> bool" where
  "passes numToString st item =
     (passesBeforeYear st item \<and> yearPasses numToString st item \<and> passesAfterYear st item)"

subsection \<open>Category win rates and education breakdown (MasterSheet, \<open>statsData\<close>)\<close>

text \<open>
  The result of a division is a number that can be \<open>NaN\<close> or \<open>Infinity\<close>, and
  a finite result is rounded to a double.  The operands here are counts (lengths of
  arrays); the rounding of the exact result is the parameter \<open>fl\<close>.
\<close>

datatype jsnumber = Number real | NaN | Infinity

record CategoryRate =
  cat_name :: string
  rate :: jsnumber
  total :: nat
  wins :: nat

text \<open>\<open>a / b\<close> for two counts: \<open>0 / 0\<close> is \<open>NaN\<close>, \<open>a / 0\<close> is \<open>Infinity\<close>.\<close>

definition js_divide :: "(real \<Rightarrow> real) \<Rightarrow> nat \<Rightarrow> nat \<Rightarrow> jsnumber" where
  "js_divide fl a b =
     (if b = 0 then (if a = 0 then NaN else Infinity) else Number (fl (real a / real b)))"

text \<open>\<open>x * c\<close> for a positive literal \<open>c\<close>.\<close>

fun js_times :: "(real \<Rightarrow> real) \<Rightarrow> jsnumber \<Rightarrow> real \<Rightarrow> jsnumber" where
  "js_times fl (Number x) c = Number (fl (x * c))"
| "js_times fl NaN c = NaN"
| "js_times fl Infinity c = Infinity"

text \<open>
  \<open>Math.round\<close>: the nearest integer, a half rounded up; \<open>NaN\<close> and
  \<open>Infinity\<close> are returned as they are.
\<close>

fun Math_round :: "jsnumber \<Rightarrow> jsnumber" where
  "Math_round (Number x) = Number (of_int \<lfloor>x + 1 / 2\<rfloor>)"
| "Math_round NaN = NaN"
| "Math_round Infinity = Infinity"

text \<open>\<open>total ? Math.round((wins / total) * 100) : 0\<close>\<close>

definition winRate :: "(real \<Rightarrow> real) \<Rightarrow> nat \<Rightarrow> nat \<Rightarrow> jsnumber" where
  "winRate fl winsCount totalCount =
     (if totalCount \<noteq> 0 then Math_round (js_times fl (js_divide fl winsCount totalCount) 100)
      else Number 0)"

definition categoryData :: "(real \<Rightarrow> real) \<Rightarrow> ElectionResult list \<Rightarrow> CategoryRate list" where
  "categoryData fl data =
     (let incidents = length (filter (\<lambda>d. truthy_bool (Incumbent d)) data);
          incumbentWins = length (filter (\<lambda>d. truthy_bool (Incumbent d) \<and> Position d = Val 1) data);
          turncoats = length (filter (\<lambda>d. truthy_bool (Turncoat d)) data);
          turncoatWins = length (filter (\<lambda>d. truthy_bool (Turncoat d) \<and> Position d = Val 1) data);
          recontests = length (filter (\<lambda>d. truthy_bool (Recontest d)) data);
          recontestWins = length (filter (\<lambda>d. truthy_bool (Recontest d) \<and> Position d = Val 1) data)
      in [\<lparr>cat_name = ''Incumbents'', rate = winRate fl incumbentWins incidents,
            total = incidents, wins = incumbentWins\<rparr>,
          \<lparr>cat_name = ''Turncoats'', rate = winRate fl turncoatWins turncoats,
            total = turncoats, wins = turncoatWins\<rparr>,
          \<lparr>cat_name = ''Recontesting'', rate = winRate fl recontestWins recontests,
            total = recontests, wins = recontestWins\<rparr>])"

text \<open>
  A counting object \<open>Record<string, number>\<close>: \<open>counts[k] = (counts[k] || 0) + 1\<close>.
  The list keeps the keys in the order of their first insertion, which is the order in
  which \<open>Object.entries\<close> lists keys that are not array indices.
\<close>

fun bump :: "string \<Rightarrow> (string \<times> nat) list \<Rightarrow> (string \<times> nat) list" where
  "bump k [] = [(k, 1)]"
| "bump k ((k', n) # rest) = (if k = k' then (k', n + 1) # rest else (k', n) # bump k rest)"

text \<open>The property key that a possibly missing string becomes; \<open>a || b || 'Unknown'\<close>.\<close>

fun String_str :: "string js \<Rightarrow> string" where
  "String_str (Val s) = s"
| "String_str Null = ''null''"
| "String_str Undefined = ''undefined''"

definition eduData :: "ElectionResult list \<Rightarrow> (string \<times> nat) list" where
  "eduData rows =
     (let eduStats = foldl (\<lambda>stats d.
            bump (case or_str (or_str (MyNeta_education_TA d) (MyNeta_education d)) (Val ''Unknown'')
                  of Val edu \<Rightarrow> edu | _ \<Rightarrow> ''Unknown'') stats) [] rows
      in take 5 (array_sort (\<lambda>a b. real (snd b) - real (snd a)) eduStats))"

text \<open>\<open>statsData\<close> is \<open>null\<close> when the filtered set is empty.\<close>

definition statsData ::
  "(real \<Rightarrow> real) \<Rightarrow> ElectionResult list \<Rightarrow> ElectionResult list \<Rightarrow>
   (CategoryRate list \<times> (string \<times> nat) list) option"
where
  "statsData fl processed data =
     (if length processed = 0 then None
      else (let winners = filter (\<lambda>d. Position d = Val 1) processed
            in Some (categoryData fl data,
                     eduData (if length winners > 0 then winners else processed))))"

section \<open>Map filter and reconciliation index (ConstituencyMap)\<close>

record MapFilterState =
  map_selectedAlliance :: string
  map_selectedParty :: string
  map_marginRange :: string
  map_constituencyType :: string
  map_selectedGender :: string
  map_selectedDistrict :: string
  map_searchTerm :: string

definition mapInitialState :: MapFilterState where
  "mapInitialState = \<lparr>map_selectedAlliance = ''All'', map_selectedParty = ''All'',
     map_marginRange = ''All'', map_constituencyType = ''All'', map_selectedGender = ''All'',
     map_selectedDistrict = ''All'', map_searchTerm = []\<rparr>"

text \<open>
  The alliance callback of the map: \<open>item.Party\<close> is tested as it is (a missing party
  is in no list).
\<close>

definition mapAllianceMatches :: "string \<Rightarrow> ElectionResult \<Rightarrow> bool" where
  "mapAllianceMatches alliance item =
     (let party = Party item in
      if alliance = ''DMK+'' then
        party \<in> set (map Val [''DMK'', ''INC'', ''VCK'', ''CPI'', ''CPM'', ''CPI(M)'', ''IUML'',
                               ''KMDK'', ''MDMK'', ''MMK''])
      else if alliance = ''ADMK+'' then
        party \<in> set (map Val [''ADMK'', ''BJP'', ''PMK'', ''TMC'', ''TMC(M)''])
      else if alliance = ''Others'' then
        party \<notin> set (map Val [''DMK'', ''INC'', ''VCK'', ''CPI'', ''CPM'', ''CPI(M)'', ''IUML'',
                               ''KMDK'', ''MDMK'', ''MMK'', ''ADMK'', ''BJP'', ''PMK'', ''TMC'',
                               ''TMC(M)''])
      else True)"

text \<open>
  \<open>item.Constituency_Name.toLowerCase().includes(searchTerm.toLowerCase()) ||
  item.Constituency_Name_TA?.includes(searchTerm)\<close>: a missing constituency name is a
  \<open>TypeError\<close>.
\<close>

definition mapSearchMatches :: "string \<Rightarrow> ElectionResult \<Rightarrow> error + bool" where
  "mapSearchMatches needle item =
     (case Constituency_Name item of
        Val n \<Rightarrow> Inr (includes_str (toLowerCase n) (toLowerCase needle) \<or>
                      (case Constituency_Name_TA item of
                         Val t \<Rightarrow> includes_str t needle
                       | _ \<Rightarrow> False))
      | _ \<Rightarrow> Inl TypeError)"

text \<open>The rows on which the map's search and the index can read a constituency name.\<close>

definition hasName :: "ElectionResult \<Rightarrow> bool" where
  "hasName item = (case Constituency_Name item of Val n \<Rightarrow> True | _ \<Rightarrow> False)"

text \<open>
  \<open>filteredData\<close>: the winners of the data set, narrowed by the map's facets.  The
  margin callback is the same text as in the master sheet.
\<close>

definition filteredData :: "MapFilterState \<Rightarrow> ElectionResult list \<Rightarrow> error + ElectionResult list" where
  "filteredData st data =
     (let result = data;
          winners = filter (\<lambda>d. Position d = Val 1) result;
          filteredWinners = winners;
          filteredWinners = (if map_selectedAlliance st \<noteq> ''All''
             then filter (mapAllianceMatches (map_selectedAlliance st)) filteredWinners
             else filteredWinners);
          filteredWinners = (if map_selectedParty st \<noteq> ''All''
             then filter (\<lambda>item. Party item = Val (map_selectedParty st)) filteredWinners
             else filteredWinners);
          filteredWinners = (if map_marginRange st \<noteq> ''All''
             then filter (marginMatches (map_marginRange st)) filteredWinners
             else filteredWinners);
          filteredWinners = (if map_constituencyType st \<noteq> ''All''
             then filter (\<lambda>item. Constituency_Type item = Val (map_constituencyType st)) filteredWinners
             else filteredWinners);
          filteredWinners = (if map_selectedGender st \<noteq> ''All''
             then filter (\<lambda>item. Sex item = Val (map_selectedGender st)) filteredWinners
             else filteredWinners);
          filteredWinners = (if map_selectedDistrict st \<noteq> ''All''
             then filter (\<lambda>item. District_Name item = Val (map_selectedDistrict st)) filteredWinners
             else filteredWinners)
      in if map_searchTerm st \<noteq> []
         then filterE (mapSearchMatches (map_searchTerm st)) filteredWinners
         else Inr filteredWinners)"

record Entry =
  winner :: ElectionResult
  runnerUp :: "ElectionResult option"

text \<open>
  \<open>data.find(d => d.Constituency_Name === winner.Constituency_Name && d.Position === 2)\<close>
\<close>

definition findRunnerUp :: "ElectionResult list \<Rightarrow> ElectionResult \<Rightarrow> ElectionResult option" where
  "findRunnerUp data w =
     find (\<lambda>d. Constituency_Name d = Constituency_Name w \<and> Position d = Val 2) data"

text \<open>
  \<open>winner.Constituency_Name.replace(/\(SC\)/i, '').replace(/\(ST\)/i, '').trim().toLowerCase()\<close>
\<close>

definition indexKey :: "string \<Rightarrow> string" where
  "indexKey n = toLowerCase (trim (remove_first_ci ''(ST)'' (remove_first_ci ''(SC)'' n)))"

text \<open>
  The \<open>forEach\<close> loop that fills the \<open>Map\<close>: a later winner with the same key
  replaces the earlier entry; a winner without a constituency name is a \<open>TypeError\<close>.
\<close>

fun fillMap ::
  "ElectionResult list \<Rightarrow> ElectionResult list \<Rightarrow> (string \<rightharpoonup> Entry) \<Rightarrow> error + (string \<rightharpoonup> Entry)"
where
  "fillMap data [] m = Inr m"
| "fillMap data (w # ws) m =
     (let ru = findRunnerUp data w in
      case Constituency_Name w of
        Val n \<Rightarrow> fillMap data ws (m(indexKey n \<mapsto> \<lparr>winner = w, runnerUp = ru\<rparr>))
      | _ \<Rightarrow> Inl TypeError)"

definition resultsMap :: "MapFilterState \<Rightarrow> ElectionResult list \<Rightarrow> error + (string \<rightharpoonup> Entry)" where
  "resultsMap st data =
     (case filteredData st data of
        Inl e \<Rightarrow> Inl e
      | Inr filtered \<Rightarrow> fillMap data filtered Map.empty)"

text \<open>
  The join of a feature to the results, as \<open>style\<close> and \<open>onEachFeature\<close> do it:
  \<open>resultsMap.get(getNormalizedName(feature))\<close>.
\<close>

definition reconcile :: "(string \<rightharpoonup> Entry) \<Rightarrow> Feature \<Rightarrow> Entry option" where
  "reconcile m feature = m (getNormalizedName feature)"

section \<open>Seat counts (Dashboard)\<close>

definition SPA_PARTIES :: "string list" where
  "SPA_PARTIES = [''DMK'', ''INC'', ''VCK'', ''CPI'', ''CPM'', ''CPI(M)'', ''IUML'', ''MDMK'',
     ''KMDK'', ''MMK'']"

definition NDA_PARTIES :: "string list" where
  "NDA_PARTIES = [''ADMK'', ''BJP'', ''PMK'', ''TMC(M)'']"

definition winners :: "ElectionResult list \<Rightarrow> ElectionResult list" where
  "winners data = filter (\<lambda>d. Position d = Val 1) data"

record PartyWin =
  win_name :: string
  win_nameTA :: string
  win_value :: nat

text \<open>
  \<open>partyWins\<close>: seats per party, most seats first.  The translation table
  \<open>partyTranslations\<close> is data of the repository; it is a parameter here, and
  \<open>partyTranslations[name] || name\<close> falls back to the name.
\<close>

definition partyWins :: "(string \<rightharpoonup> string) \<Rightarrow> ElectionResult list \<Rightarrow> PartyWin list" where
  "partyWins partyTranslations data =
     (let counts = foldl (\<lambda>counts w. bump (String_str (Party w)) counts) [] (winners data)
      in array_sort (\<lambda>a b. real (win_value b) - real (win_value a))
           (map (\<lambda>(name, val).
                   \<lparr>win_name = name,
                    win_nameTA = (case partyTranslations name of
                                    Some t \<Rightarrow> (if t \<noteq> [] then t else name)
                                  | None \<Rightarrow> name),
                    win_value = val\<rparr>) counts))"

text \<open>\<open>allianceWins\<close>: the seats of the two alliances and of the others, in this order.\<close>

definition allianceWins :: "ElectionResult list \<Rightarrow> nat \<times> nat \<times> nat" where
  "allianceWins data =
     foldl (\<lambda>(dmk, admk, others) w.
              if Party w \<in> set (map Val SPA_PARTIES) then (dmk + 1, admk, others)
              else if Party w \<in> set (map Val NDA_PARTIES) then (dmk, admk + 1, others)
              else (dmk, admk, others + 1))
       (0, 0, 0) (winners data)"

section \<open>What the win rates are\<close>

text \<open>
  The positions of the rows that carry a flag, and of those among them that won their
  seat.
\<close>

definition flagged :: "(ElectionResult \<Rightarrow> bool js) \<Rightarrow> ElectionResult list \<Rightarrow> nat set" where
  "flagged flag data = {i. i < length data \<and> flag (data ! i) = Val True}"

definition flaggedWinners :: "(ElectionResult \<Rightarrow> bool js) \<Rightarrow> ElectionResult list \<Rightarrow> nat set" where
  "flaggedWinners flag data =
     {i. i < length data \<and> flag (data ! i) = Val True \<and> Position (data ! i) = Val 1}"

text \<open>
  What is asked of the rounding to a double: it keeps the order, and it leaves
  \<open>0\<close>, \<open>1\<close> and \<open>100\<close> as they are (they are doubles).
\<close>

definition faithful_rounding :: "(real \<Rightarrow> real) \<Rightarrow> bool" where
  "faithful_rounding fl =
     ((\<forall>x y. x \<le> y \<longrightarrow> fl x \<le> fl y) \<and> fl 0 = 0 \<and> fl 1 = 1 \<and> fl 100 = 100)"

text \<open>
  A concrete rounding: to the nearest multiple of \<open>1 / 2 ^ 53\<close>, which is the
  spacing of the doubles between \<open>1/2\<close> and \<open>1\<close>.
\<close>

definition round53 :: "real \<Rightarrow> real" where
  "round53 x = of_int \<lfloor>x * 2 ^ 53 + 1 / 2\<rfloor> / 2 ^ 53"

section \<open>What a sorted result is\<close>

text \<open>
  A comparator is consistent (in the sense of the language standard) when it is a total
  preorder: swapping the arguments swaps the sign, and \<open>\<le> 0\<close> is transitive.  This is
  what is asked of the host's \<open>localeCompare\<close>.
\<close>

definition consistent_compare :: "(string \<Rightarrow> string \<Rightarrow> real) \<Rightarrow> bool" where
  "consistent_compare localeCompare =
     ((\<forall>s t. (localeCompare s t < 0) = (localeCompare t s > 0)) \<and>
      (\<forall>s t u. localeCompare s t \<le> 0 \<and> localeCompare t u \<le> 0 \<longrightarrow> localeCompare s u \<le> 0))"

text \<open>The kind of a value, as \<open>typeof\<close> sees it (the two missing values together).\<close>

fun kind :: "jsval \<Rightarrow> nat" where
  "kind JUndefined = 0"
| "kind JNull = 0"
| "kind (JNum x) = 1"
| "kind (JStr s) = 2"
| "kind (JBool b) = 3"

text \<open>
  Two rows are in order, for a sort configuration, when the second has no value in the
  sort column, or both have one and the comparator does not put the first after the
  second.
\<close>

definition rowsInOrder ::
  "(string \<Rightarrow> string \<Rightarrow> real) \<Rightarrow> (real \<Rightarrow> string) \<Rightarrow> SortConfig \<Rightarrow>
   ElectionResult \<Rightarrow> ElectionResult \<Rightarrow> bool"
where
  "rowsInOrder localeCompare numToString cfg a b =
     (is_nullish (field_value (key cfg) b) \<or>
      (\<not> is_nullish (field_value (key cfg) a) \<and>
       compareRows localeCompare numToString cfg a b \<le> 0))"

text \<open>A comparison of two strings by their code units, for use as a concrete \<open>localeCompare\<close>.\<close>

fun codeUnitCompare :: "string \<Rightarrow> string \<Rightarrow> real" where
  "codeUnitCompare [] [] = 0"
| "codeUnitCompare [] (d # t) = - 1"
| "codeUnitCompare (c # s) [] = 1"
| "codeUnitCompare (c # s) (d # t) =
     (if (of_char c :: nat) < of_char d then - 1
      else if (of_char d :: nat) < of_char c then 1
      else codeUnitCompare s t)"

section \<open>Properties of the name normalizer\<close>

text \<open>
  Claim C7.  The feature names \<open>Chennai (SC)\<close>, \<open>Chennai(SC\<close> (the bracket is not
  closed) and \<open>chennai (st)\<close> all normalize to the key \<open>chennai\<close>, whatever the
  feature's numeric identifier is: the name is lower-cased, the reservation annotation is
  removed and the surrounding white space is trimmed.
\<close>

theorem getNormalizedName_reservation_stripping:
  "getNormalizedName \<lparr>AC_NAME = Val ''Chennai (SC)'', ac_name = alt, AC_NO = n, ac_no = m\<rparr>
     = ''chennai''
   \<and> getNormalizedName \<lparr>AC_NAME = Val ''Chennai(SC'', ac_name = alt, AC_NO = n, ac_no = m\<rparr>
     = ''chennai''
   \<and> getNormalizedName \<lparr>AC_NAME = Val ''chennai (st)'', ac_name = alt, AC_NO = n, ac_no = m\<rparr>
     = ''chennai''"
  by (simp add: getNormalizedName_def or_str_def toLowerCase_def lower_char_def
      upper_letters_def lower_letters_def trim_def is_space_def mapped_name_def
      NAME_MAPPING_def)

section \<open>Properties of the filter engine\<close>

lemma if_filter: "(if c then filter p xs else xs) = filter (\<lambda>x. c \<longrightarrow> p x) xs"
  by simp

lemma filter_filter_conj: "filter q (filter p xs) = filter (\<lambda>x. p x \<and> q x) xs"
  by (induction xs) auto

lemma facetsBeforeYear_filter: "facetsBeforeYear st data = filter (passesBeforeYear st) data"
  unfolding facetsBeforeYear_def passesBeforeYear_def Let_def if_filter filter_filter_conj
  by (rule filter_cong) (simp_all only: conj_assoc)

lemma facetsAfterYear_filter: "facetsAfterYear st data = filter (passesAfterYear st) data"
  unfolding facetsAfterYear_def passesAfterYear_def Let_def if_filter filter_filter_conj
  by (rule filter_cong) (simp_all only: conj_assoc)

lemma filterE_Inr: "filterE p xs = Inr ys \<Longrightarrow> ys = filter (\<lambda>x. p x = Inr True) xs"
  by (induction xs arbitrary: ys) (auto split: sum.splits if_splits)

lemma filterE_total:
  "list_all (\<lambda>x. p x \<noteq> Inl TypeError) xs \<Longrightarrow> filterE p xs = Inr (filter (\<lambda>x. p x = Inr True) xs)"
proof (induction xs)
  case Nil
  then show ?case by simp
next
  case (Cons x xs)
  then obtain b where "p x = Inr b"
    by (cases "p x") (auto, metis error.exhaust)
  with Cons show ?case by simp
qed

lemma filterE_raises:
  "\<not> list_all (\<lambda>x. p x \<noteq> Inl TypeError) xs \<Longrightarrow> filterE p xs = Inl TypeError"
proof (induction xs)
  case Nil
  then show ?case by simp
next
  case (Cons x xs)
  show ?case
  proof (cases "p x")
    case (Inl e)
    then show ?thesis by (cases e) simp
  next
    case (Inr b)
    with Cons have "filterE p xs = Inl TypeError" by simp
    with Inr show ?thesis by simp
  qed
qed

lemma yearMatches_raises: "yearMatches n2s y item \<noteq> Inl TypeError \<longleftrightarrow> hasYear item"
  by (cases "Year item") (simp_all add: yearMatches_def hasYear_def)

lemma yearPasses_set:
  "selectedYear st \<noteq> ''All'' \<Longrightarrow>
     yearPasses n2s st = (\<lambda>x. yearMatches n2s (selectedYear st) x = Inr True)"
  by (simp add: yearPasses_def fun_eq_iff)

lemma yearPasses_unset: "selectedYear st = ''All'' \<Longrightarrow> yearPasses n2s st = (\<lambda>x. True)"
  by (simp add: yearPasses_def fun_eq_iff)

lemma yearFacet_cases:
  "yearFacet n2s st xs =
     (if selectedYear st \<noteq> ''All'' \<and> \<not> list_all hasYear xs then Inl TypeError
      else Inr (filter (yearPasses n2s st) xs))"
proof (cases "selectedYear st \<noteq> ''All'' \<and> \<not> list_all hasYear xs")
  case True
  then have "\<not> list_all (\<lambda>x. yearMatches n2s (selectedYear st) x \<noteq> Inl TypeError) xs"
    by (simp add: yearMatches_raises)
  from filterE_raises [OF this] True show ?thesis
    by (simp add: yearFacet_def)
next
  case False
  show ?thesis
  proof (cases "selectedYear st = ''All''")
    case True
    then show ?thesis by (simp add: yearFacet_def yearPasses_unset)
  next
    case ny: False
    with False have "list_all (\<lambda>x. yearMatches n2s (selectedYear st) x \<noteq> Inl TypeError) xs"
      by (simp add: yearMatches_raises)
    from filterE_total [OF this] ny False show ?thesis
      by (simp add: yearFacet_def yearPasses_set)
  qed
qed

lemma passes_eta:
  "(\<lambda>x. passesBeforeYear st x \<and> yearPasses n2s st x \<and> passesAfterYear st x) = passes n2s st"
  by (simp add: passes_def fun_eq_iff)

lemma processedData_cases:
  "processedData lc n2s st data =
     (if selectedYear st \<noteq> ''All'' \<and> \<not> list_all hasYear (filter (passesBeforeYear st) data)
      then Inl TypeError
      else Inr (sortStep lc n2s st (filter (passes n2s st) data)))"
  by (simp add: processedData_def yearFacet_cases facetsBeforeYear_filter
      facetsAfterYear_filter filter_filter_conj passes_eta conj_assoc)

lemma marginMatches_iff:
  "marginMatches b item \<longleftrightarrow>
     (\<exists>m. Margin item = Val m \<and> m \<noteq> 0 \<and>
        (if b = ''High'' then m > 50000 else if b = ''Medium'' then 10000 \<le> m \<and> m \<le> 50000
         else if b = ''Low'' then m < 10000 else True))"
  by (cases "Margin item") (simp_all add: marginMatches_def cong: conj_cong)

lemma voteShareMatches_iff:
  "voteShareMatches b item \<longleftrightarrow>
     (\<exists>m. Vote_Share_Percentage item = Val m \<and> m \<noteq> 0 \<and>
        (if b = ''High'' then m > 50 else if b = ''Medium'' then 30 \<le> m \<and> m \<le> 50
         else if b = ''Low'' then m < 30 else True))"
  by (cases "Vote_Share_Percentage item") (simp_all add: voteShareMatches_def cong: conj_cong)

lemma sortStep_None: "sortConfig st = None \<Longrightarrow> sortStep lc n2s st xs = xs"
  by (simp add: sortStep_def)

lemma insertBy_mset: "mset (insertBy cmp x ys) = add_mset x (mset ys)"
  by (induction ys) auto

lemma array_sort_mset: "mset (array_sort cmp xs) = mset xs"
  by (induction xs) (auto simp: array_sort_def insertBy_mset)

lemma sortStep_mset: "mset (sortStep lc n2s st xs) = mset xs"
  by (simp add: sortStep_def array_sort_mset split: option.split)

lemma sortStep_set: "set (sortStep lc n2s st xs) = set xs"
  using sortStep_mset [of lc n2s st xs] by (metis set_mset_mset)

lemma processedData_set:
  "processedData lc n2s st data = Inr out \<Longrightarrow> set out = {item \<in> set data. passes n2s st item}"
  by (auto simp: processedData_cases sortStep_set split: if_splits)

lemma initial_margin_passes:
  "passes n2s (initialState\<lparr>marginRange := b\<rparr>) = (\<lambda>item. b \<noteq> ''All'' \<longrightarrow> marginMatches b item)"
  by (simp add: passes_def passesBeforeYear_def passesAfterYear_def yearPasses_def
      initialState_def fun_eq_iff)

lemma processedData_margin_only:
  "processedData lc n2s (initialState\<lparr>marginRange := b\<rparr>) data =
     Inr (if b = ''All'' then data else filter (marginMatches b) data)"
proof -
  have "selectedYear (initialState\<lparr>marginRange := b\<rparr>) = ''All''"
    and "sortConfig (initialState\<lparr>marginRange := b\<rparr>) = None"
    by (simp_all add: initialState_def)
  then show ?thesis
    by (simp add: processedData_cases initial_margin_passes sortStep_None)
qed

text \<open>
  Claim C2, as amended.  For a row whose margin is a number other than \<open>0\<close>, the
  margin facet keeps the row under \<open>High\<close> iff the margin is above 50000, under
  \<open>Medium\<close> iff it lies in the closed interval from 10000 to 50000, and under
  \<open>Low\<close> iff it is below 10000; a row with no margin is kept under no bucket; and
  with only the margin facet set the engine returns exactly the rows that the bucket
  predicate keeps.  (A margin of exactly \<open>0\<close> is the subject of claim C9.)
\<close>

theorem marginMatches_buckets:
  "(Margin item = Val m \<and> m \<noteq> 0 \<longrightarrow>
      (marginMatches ''High'' item \<longleftrightarrow> m > 50000) \<and>
      (marginMatches ''Medium'' item \<longleftrightarrow> 10000 \<le> m \<and> m \<le> 50000) \<and>
      (marginMatches ''Low'' item \<longleftrightarrow> m < 10000)) \<and>
   (Margin item = Null \<or> Margin item = Undefined \<longrightarrow> \<not> marginMatches bucket item) \<and>
   processedData localeCompare numToString (initialState\<lparr>marginRange := bucket\<rparr>) data =
     Inr (if bucket = ''All'' then data else filter (marginMatches bucket) data)"
  by (auto simp: marginMatches_iff processedData_margin_only)

text \<open>
  The boundary values: 50000 and 10000 are \<open>Medium\<close>, 9999 is \<open>Low\<close>, 50001
  is \<open>High\<close>, and a missing margin matches nothing.
\<close>

theorem marginMatches_buckets_witness:
  "marginMatches ''Medium'' (blank_row\<lparr>Margin := Val 50000\<rparr>) \<and>
   marginMatches ''Medium'' (blank_row\<lparr>Margin := Val 10000\<rparr>) \<and>
   marginMatches ''Low'' (blank_row\<lparr>Margin := Val 9999\<rparr>) \<and>
   marginMatches ''High'' (blank_row\<lparr>Margin := Val 50001\<rparr>) \<and>
   \<not> marginMatches ''High'' (blank_row\<lparr>Margin := Val 50000\<rparr>) \<and>
   \<not> marginMatches ''Low'' (blank_row\<lparr>Margin := Val 10000\<rparr>) \<and>
   \<not> marginMatches ''Low'' (blank_row\<lparr>Margin := Null\<rparr>) \<and>
   \<not> marginMatches ''Low'' (blank_row\<lparr>Margin := Undefined\<rparr>)"
  using marginMatches_buckets [of "blank_row\<lparr>Margin := Val 50000\<rparr>" 50000]
    marginMatches_buckets [of "blank_row\<lparr>Margin := Val 10000\<rparr>" 10000]
    marginMatches_buckets [of "blank_row\<lparr>Margin := Val 9999\<rparr>" 9999]
    marginMatches_buckets [of "blank_row\<lparr>Margin := Val 50001\<rparr>" 50001]
    marginMatches_buckets [of "blank_row\<lparr>Margin := Null\<rparr>" 0 "''Low''"]
    marginMatches_buckets [of "blank_row\<lparr>Margin := Undefined\<rparr>" 0 "''Low''"]
  by simp

text \<open>
  The claim as first stated fails for a margin of \<open>0\<close>: it is below 10000, and the
  \<open>Low\<close> bucket does not keep the row, because \<open>!margin\<close> holds for \<open>0\<close>.
\<close>

theorem marginMatches_low_zero_counterexample:
  "\<not> (marginMatches ''Low'' (blank_row\<lparr>Margin := Val 0\<rparr>) \<longleftrightarrow> (0::real) < 10000)"
  by (simp add: marginMatches_def)

text \<open>
  Claim C9.  A row whose margin is exactly \<open>0\<close> is kept by no margin bucket, and a
  row whose vote share is exactly \<open>0\<close> by no vote-share bucket, \<open>Low\<close>
  included: the guard \<open>if (!margin) return false\<close> treats \<open>0\<close> as it treats a
  missing value.  Whatever else the filter state holds, such a row is not in the engine's
  output once the facet is set.
\<close>

theorem zero_value_excluded:
  "(Margin item = Val 0 \<longrightarrow> \<not> marginMatches bucket item) \<and>
   (Vote_Share_Percentage item = Val 0 \<longrightarrow> \<not> voteShareMatches bucket item) \<and>
   (Margin item = Val 0 \<and> marginRange st \<noteq> ''All'' \<and>
      processedData localeCompare numToString st data = Inr out \<longrightarrow> item \<notin> set out) \<and>
   (Vote_Share_Percentage item = Val 0 \<and> voteShareRange st \<noteq> ''All'' \<and>
      processedData localeCompare numToString st data = Inr out \<longrightarrow> item \<notin> set out)"
proof -
  have m: "Margin item = Val 0 \<Longrightarrow> \<not> marginMatches b item" for b
    by (simp add: marginMatches_def)
  have v: "Vote_Share_Percentage item = Val 0 \<Longrightarrow> \<not> voteShareMatches b item" for b
    by (simp add: voteShareMatches_def)
  have "item \<notin> set out"
    if "Margin item = Val 0" "marginRange st \<noteq> ''All''"
      "processedData localeCompare numToString st data = Inr out"
  proof
    assume "item \<in> set out"
    with processedData_set [OF that(3)] have "passesAfterYear st item"
      by (simp add: passes_def)
    with that(2) have "marginMatches (marginRange st) item"
      by (simp add: passesAfterYear_def)
    with m [OF that(1)] show False by simp
  qed
  moreover have "item \<notin> set out"
    if "Vote_Share_Percentage item = Val 0" "voteShareRange st \<noteq> ''All''"
      "processedData localeCompare numToString st data = Inr out"
  proof
    assume "item \<in> set out"
    with processedData_set [OF that(3)] have "passesAfterYear st item"
      by (simp add: passes_def)
    with that(2) have "voteShareMatches (voteShareRange st) item"
      by (simp add: passesAfterYear_def)
    with v [OF that(1)] show False by simp
  qed
  ultimately show ?thesis using m v by blast
qed

theorem zero_value_excluded_witness:
  "(0::real) < 10000 \<and> \<not> marginMatches ''Low'' (blank_row\<lparr>Margin := Val 0\<rparr>) \<and>
   (0::real) < 30 \<and> \<not> voteShareMatches ''Low'' (blank_row\<lparr>Vote_Share_Percentage := Val 0\<rparr>) \<and>
   processedData (\<lambda>a b. 0) (\<lambda>y. []) (initialState\<lparr>marginRange := ''Low''\<rparr>)
     [blank_row\<lparr>Margin := Val 0\<rparr>] = Inr []"
  using zero_value_excluded [of "blank_row\<lparr>Margin := Val 0\<rparr>" "''Low''"]
    zero_value_excluded [of "blank_row\<lparr>Vote_Share_Percentage := Val 0\<rparr>" "''Low''"]
  by (simp add: processedData_margin_only)

lemma blank_row_fields:
  "Constituency_Name blank_row = Undefined" "Constituency_Type blank_row = Undefined"
  "District_Name blank_row = Undefined" "Candidate blank_row = Undefined"
  "Sex blank_row = Undefined" "Age blank_row = Undefined"
  "MyNeta_education blank_row = Undefined" "TCPD_Prof_Main blank_row = Undefined"
  "Party blank_row = Undefined" "Votes blank_row = Undefined" "N_Cand blank_row = Undefined"
  "Electors blank_row = Undefined" "Turnout_Percentage blank_row = Undefined"
  "Vote_Share_Percentage blank_row = Undefined" "Margin blank_row = Undefined"
  "Margin_Percentage blank_row = Undefined" "Contested blank_row = Undefined"
  "No_Terms blank_row = Undefined" "Deposit_Lost blank_row = Undefined"
  "Sub_Region blank_row = Undefined" "Position blank_row = Undefined"
  "Year blank_row = Undefined" "Turncoat blank_row = Undefined"
  "Incumbent blank_row = Undefined" "Recontest blank_row = Undefined"
  "Constituency_Name_TA blank_row = Undefined" "District_Name_TA blank_row = Undefined"
  "Party_TA blank_row = Undefined" "MyNeta_education_TA blank_row = Undefined"
  by (simp_all add: blank_row_def)

lemmas pipeline_defs = processedData_def yearFacet_def facetsBeforeYear_def
  facetsAfterYear_def sortStep_def initialState_def yearMatches_def or_str_def

lemma initial_position_passes:
  "passes n2s (initialState\<lparr>selectedPosition := ''DepositLost''\<rparr>) = positionMatches ''DepositLost''"
  by (simp add: passes_def passesBeforeYear_def passesAfterYear_def yearPasses_def
      initialState_def fun_eq_iff)

lemma processedData_position_only:
  "processedData lc n2s (initialState\<lparr>selectedPosition := ''DepositLost''\<rparr>) data =
     Inr (filter (positionMatches ''DepositLost'') data)"
proof -
  have "selectedYear (initialState\<lparr>selectedPosition := ''DepositLost''\<rparr>) = ''All''"
    and "sortConfig (initialState\<lparr>selectedPosition := ''DepositLost''\<rparr>) = None"
    by (simp_all add: initialState_def)
  then show ?thesis
    by (simp add: processedData_cases initial_position_passes sortStep_None)
qed

lemma initial_voteShare_passes:
  "passes n2s (initialState\<lparr>voteShareRange := b\<rparr>) = (\<lambda>item. b \<noteq> ''All'' \<longrightarrow> voteShareMatches b item)"
  by (simp add: passes_def passesBeforeYear_def passesAfterYear_def yearPasses_def
      initialState_def fun_eq_iff)

lemma processedData_voteShare_only:
  "processedData lc n2s (initialState\<lparr>voteShareRange := b\<rparr>) data =
     Inr (if b = ''All'' then data else filter (voteShareMatches b) data)"
proof -
  have "selectedYear (initialState\<lparr>voteShareRange := b\<rparr>) = ''All''"
    and "sortConfig (initialState\<lparr>voteShareRange := b\<rparr>) = None"
    by (simp_all add: initialState_def)
  then show ?thesis
    by (simp add: processedData_cases initial_voteShare_passes sortStep_None)
qed

text \<open>
  On a row that has a vote share, the \<open>DepositLost\<close> test is the comparison of the
  share with 16.66, and it does not read the position: 16.65 matches, 16.66 does not.
  On a row whose share is \<open>undefined\<close> the test fails.
\<close>

lemma depositLost_valued_rows:
  "(Vote_Share_Percentage item = Val v \<longrightarrow>
      (positionMatches ''DepositLost'' item \<longleftrightarrow> v < 16.66)) \<and>
   (Vote_Share_Percentage item = Undefined \<longrightarrow> \<not> positionMatches ''DepositLost'' item) \<and>
   positionMatches ''DepositLost'' (item\<lparr>Position := p\<rparr>) = positionMatches ''DepositLost'' item"
  by (simp add: positionMatches_def)

lemma depositLost_boundary:
  "positionMatches ''DepositLost'' (blank_row\<lparr>Vote_Share_Percentage := Val 16.65\<rparr>) \<and>
   \<not> positionMatches ''DepositLost'' (blank_row\<lparr>Vote_Share_Percentage := Val 16.66\<rparr>) \<and>
   positionMatches ''DepositLost'' (blank_row\<lparr>Vote_Share_Percentage := Val 16.65, Position := Val 1\<rparr>)"
  by (simp add: positionMatches_def)

text \<open>
  Claim C5.  The claim is that under \<open>DepositLost\<close> a row matches iff its vote share
  is below 16.66.  The callback is \<open>item.Vote_Share_Percentage < 16.66\<close> with no test
  for a missing share, and JavaScript compares \<open>null\<close> as \<open>0\<close>: a row whose share
  cell is empty has no vote share below 16.66, and the engine keeps it.  The vote-share
  facet next to it starts with \<open>if (!share) return false\<close> and drops the same row
  under every bucket.
\<close>

theorem depositLost_null_share:
  "positionMatches ''DepositLost'' (blank_row\<lparr>Vote_Share_Percentage := Null\<rparr>) \<and>
   processedData (\<lambda>a b. 0) (\<lambda>y. []) (initialState\<lparr>selectedPosition := ''DepositLost''\<rparr>)
     [blank_row\<lparr>Vote_Share_Percentage := Null\<rparr>]
     = Inr [blank_row\<lparr>Vote_Share_Percentage := Null\<rparr>] \<and>
   \<not> voteShareMatches ''Low'' (blank_row\<lparr>Vote_Share_Percentage := Null\<rparr>) \<and>
   processedData (\<lambda>a b. 0) (\<lambda>y. []) (initialState\<lparr>voteShareRange := ''Low''\<rparr>)
     [blank_row\<lparr>Vote_Share_Percentage := Null\<rparr>] = Inr []"
proof -
  let ?z = "blank_row\<lparr>Vote_Share_Percentage := Null\<rparr>"
  have 1: "positionMatches ''DepositLost'' ?z"
    by (simp add: positionMatches_def)
  have 2: "\<not> voteShareMatches ''Low'' ?z"
    by (simp add: voteShareMatches_def)
  have 3: "processedData (\<lambda>a b. 0) (\<lambda>y. []) (initialState\<lparr>selectedPosition := ''DepositLost''\<rparr>) [?z]
      = Inr [?z]"
    using 1 by (simp add: processedData_position_only)
  have 4: "processedData (\<lambda>a b. 0) (\<lambda>y. []) (initialState\<lparr>voteShareRange := ''Low''\<rparr>) [?z] = Inr []"
    using 2 by (simp add: processedData_voteShare_only)
  from 1 3 2 4 show ?thesis by (intro conjI)
qed

lemma processedData_mset:
  "processedData lc n2s st data = Inr out \<Longrightarrow> mset out = filter_mset (passes n2s st) (mset data)"
  by (auto simp: processedData_cases sortStep_mset split: if_splits)

lemma processedData_sortfree:
  "sortConfig st = None \<Longrightarrow> processedData lc n2s st data = Inr out \<Longrightarrow>
     out = filter (passes n2s st) data"
  by (auto simp: processedData_cases sortStep_None split: if_splits)

lemma processedData_returns:
  "selectedYear st = ''All'' \<or> list_all hasYear data \<Longrightarrow>
     processedData lc n2s st data = Inr (sortStep lc n2s st (filter (passes n2s st) data))"
  by (auto simp: processedData_cases list_all_iff)

text \<open>
  Claim C4.  The year state of the component is \<open>All\<close> throughout: that is its
  initial value, and the only call of its setter is the reset to \<open>All\<close> (no year
  control is rendered).  So the engine runs on states whose year facet is unset.  For
  every such state and every record set, the engine returns, and its output is a part of
  its input: every row of the output is a row of the input, with no row more often than
  in the input.  For two such states, applying one and then the other returns the same
  rows in either order (the same list when neither state has a sort order).
\<close>

theorem processedData_subset_commute:
  assumes "selectedYear st = ''All''" and "selectedYear s1 = ''All''" and "selectedYear s2 = ''All''"
  shows "(\<exists>out. processedData lc n2s st data = Inr out \<and>
            set out \<subseteq> set data \<and> mset out \<subseteq># mset data) \<and>
         (\<exists>r1 r12 r2 r21.
            processedData lc n2s s1 data = Inr r1 \<and> processedData lc n2s s2 r1 = Inr r12 \<and>
            processedData lc n2s s2 data = Inr r2 \<and> processedData lc n2s s1 r2 = Inr r21 \<and>
            set r12 = set r21 \<and> mset r12 = mset r21 \<and>
            (sortConfig s1 = None \<and> sortConfig s2 = None \<longrightarrow> r12 = r21))"
proof -
  have ret: "processedData lc n2s s rows = Inr (sortStep lc n2s s (filter (passes n2s s) rows))"
    if "selectedYear s = ''All''" for s rows
    using that by (simp add: processedData_returns)
  let ?out = "sortStep lc n2s st (filter (passes n2s st) data)"
  have "processedData lc n2s st data = Inr ?out"
    by (rule ret [OF assms(1)])
  moreover have "set ?out \<subseteq> set data" and "mset ?out \<subseteq># mset data"
    by (auto simp: sortStep_set sortStep_mset)
  ultimately have part: "\<exists>out. processedData lc n2s st data = Inr out \<and>
            set out \<subseteq> set data \<and> mset out \<subseteq># mset data"
    by blast
  let ?r1 = "sortStep lc n2s s1 (filter (passes n2s s1) data)"
  let ?r12 = "sortStep lc n2s s2 (filter (passes n2s s2) ?r1)"
  let ?r2 = "sortStep lc n2s s2 (filter (passes n2s s2) data)"
  let ?r21 = "sortStep lc n2s s1 (filter (passes n2s s1) ?r2)"
  have m12: "mset ?r12 = filter_mset (passes n2s s2) (filter_mset (passes n2s s1) (mset data))"
    by (simp add: sortStep_mset)
  have m21: "mset ?r21 = filter_mset (passes n2s s1) (filter_mset (passes n2s s2) (mset data))"
    by (simp add: sortStep_mset)
  from m12 m21 have m: "mset ?r12 = mset ?r21"
    by (simp add: filter_filter_mset conj_commute)
  then have st: "set ?r12 = set ?r21"
    by (rule mset_eq_setD)
  have l: "?r12 = ?r21" if "sortConfig s1 = None \<and> sortConfig s2 = None"
    using that by (simp add: sortStep_None filter_filter_conj conj_commute)
  have "processedData lc n2s s1 data = Inr ?r1 \<and> processedData lc n2s s2 ?r1 = Inr ?r12 \<and>
        processedData lc n2s s2 data = Inr ?r2 \<and> processedData lc n2s s1 ?r2 = Inr ?r21 \<and>
        set ?r12 = set ?r21 \<and> mset ?r12 = mset ?r21 \<and>
        (sortConfig s1 = None \<and> sortConfig s2 = None \<longrightarrow> ?r12 = ?r21)"
    using ret [OF assms(2)] ret [OF assms(3)] m st l by blast
  then have "\<exists>r1 r12 r2 r21.
            processedData lc n2s s1 data = Inr r1 \<and> processedData lc n2s s2 r1 = Inr r12 \<and>
            processedData lc n2s s2 data = Inr r2 \<and> processedData lc n2s s1 r2 = Inr r21 \<and>
            set r12 = set r21 \<and> mset r12 = mset r21 \<and>
            (sortConfig s1 = None \<and> sortConfig s2 = None \<longrightarrow> r12 = r21)"
    by (intro exI)
  with part show ?thesis
    by (rule conjI)
qed

text \<open>
  Two rows, a district facet and a margin facet, and a state that sorts by margin: each
  order of application returns the one row that passes both facets.
\<close>

theorem processedData_subset_commute_witness:
  "processedData (\<lambda>a b. 0) (\<lambda>y. ''2021'') (initialState\<lparr>selectedDistrict := ''Salem''\<rparr>)
     [blank_row\<lparr>District_Name := Val ''Salem'', Margin := Val 12000, Year := Val 2021\<rparr>,
      blank_row\<lparr>District_Name := Val ''Erode'', Margin := Val 60000, Year := Val 2021\<rparr>]
     = Inr [blank_row\<lparr>District_Name := Val ''Salem'', Margin := Val 12000, Year := Val 2021\<rparr>] \<and>
   processedData (\<lambda>a b. 0) (\<lambda>y. ''2021'') (initialState\<lparr>marginRange := ''Medium''\<rparr>)
     [blank_row\<lparr>District_Name := Val ''Salem'', Margin := Val 12000, Year := Val 2021\<rparr>]
     = Inr [blank_row\<lparr>District_Name := Val ''Salem'', Margin := Val 12000, Year := Val 2021\<rparr>] \<and>
   processedData (\<lambda>a b. 0) (\<lambda>y. ''2021'') (initialState\<lparr>marginRange := ''Medium''\<rparr>)
     [blank_row\<lparr>District_Name := Val ''Salem'', Margin := Val 12000, Year := Val 2021\<rparr>,
      blank_row\<lparr>District_Name := Val ''Erode'', Margin := Val 60000, Year := Val 2021\<rparr>]
     = Inr [blank_row\<lparr>District_Name := Val ''Salem'', Margin := Val 12000, Year := Val 2021\<rparr>] \<and>
   processedData (\<lambda>a b. 0) (\<lambda>y. ''2021'') (initialState\<lparr>selectedDistrict := ''Salem''\<rparr>)
     [blank_row\<lparr>District_Name := Val ''Salem'', Margin := Val 12000, Year := Val 2021\<rparr>]
     = Inr [blank_row\<lparr>District_Name := Val ''Salem'', Margin := Val 12000, Year := Val 2021\<rparr>] \<and>
   (\<exists>out. processedData (\<lambda>a b. 0) (\<lambda>y. ''2021'')
        (initialState\<lparr>sortConfig := Some \<lparr>key = K_Margin, direction = Desc\<rparr>\<rparr>)
        [blank_row\<lparr>District_Name := Val ''Salem'', Margin := Val 12000, Year := Val 2021\<rparr>,
         blank_row\<lparr>District_Name := Val ''Erode'', Margin := Val 60000, Year := Val 2021\<rparr>]
        = Inr out \<and>
      set out \<subseteq> set
        [blank_row\<lparr>District_Name := Val ''Salem'', Margin := Val 12000, Year := Val 2021\<rparr>,
         blank_row\<lparr>District_Name := Val ''Erode'', Margin := Val 60000, Year := Val 2021\<rparr>])"
proof -
  let ?a = "blank_row\<lparr>District_Name := Val ''Salem'', Margin := Val 12000, Year := Val 2021\<rparr>"
  let ?b = "blank_row\<lparr>District_Name := Val ''Erode'', Margin := Val 60000, Year := Val 2021\<rparr>"
  let ?s1 = "initialState\<lparr>selectedDistrict := ''Salem''\<rparr>"
  let ?s2 = "initialState\<lparr>marginRange := ''Medium''\<rparr>"
  let ?ss = "initialState\<lparr>sortConfig := Some \<lparr>key = K_Margin, direction = Desc\<rparr>\<rparr>"
  let ?lc = "\<lambda>(a::string) (b::string). 0::real"
  let ?n2s = "\<lambda>y::real. ''2021''"
  have e1: "processedData ?lc ?n2s ?s1 [?a, ?b] = Inr [?a]"
    by (simp add: pipeline_defs blank_row_fields)
  have e2: "processedData ?lc ?n2s ?s2 [?a, ?b] = Inr [?a]"
    by (simp add: pipeline_defs blank_row_fields marginMatches_def)
  have e3: "processedData ?lc ?n2s ?s2 [?a] = Inr [?a]"
    by (simp add: pipeline_defs blank_row_fields marginMatches_def)
  have e4: "processedData ?lc ?n2s ?s1 [?a] = Inr [?a]"
    by (simp add: pipeline_defs blank_row_fields)
  have y: "selectedYear ?ss = ''All''" "selectedYear ?s1 = ''All''" "selectedYear ?s2 = ''All''"
    by (simp_all add: initialState_def)
  from processedData_subset_commute [OF y, of ?lc ?n2s "[?a, ?b]"]
  have "\<exists>out. processedData ?lc ?n2s ?ss [?a, ?b] = Inr out \<and> set out \<subseteq> set [?a, ?b]"
    by blast
  with e1 e3 e2 e4 show ?thesis
    by (intro conjI)
qed

section \<open>Alliance tables\<close>

text \<open>
  Within each component the three alliance values split the rows: every row matches
  exactly one of \<open>DMK+\<close>, \<open>ADMK+\<close> and \<open>Others\<close>.
\<close>

lemma allianceMatches_exactly_one:
  "(allianceMatches ''DMK+'' item \<and> \<not> allianceMatches ''ADMK+'' item \<and> \<not> allianceMatches ''Others'' item) \<or>
   (\<not> allianceMatches ''DMK+'' item \<and> allianceMatches ''ADMK+'' item \<and> \<not> allianceMatches ''Others'' item) \<or>
   (\<not> allianceMatches ''DMK+'' item \<and> \<not> allianceMatches ''ADMK+'' item \<and> allianceMatches ''Others'' item)"
proof -
  define p where "p = trimmedParty item"
  define D where "D = set [''DMK'', ''INC'', ''VCK'', ''CPI'', ''CPM'', ''CPI(M)'', ''IUML'',
    ''KMDK'', ''MDMK'', ''MMK'']"
  define A where "A = set [''ADMK'', ''BJP'', ''PMK'', ''TMC'', ''TMC(M)'', ''AMMK'', ''AIADMK'']"
  have dm: "allianceMatches ''DMK+'' item \<longleftrightarrow> p \<in> D"
    unfolding allianceMatches_def Let_def p_def D_def by simp
  have am: "allianceMatches ''ADMK+'' item \<longleftrightarrow> p \<in> A"
    unfolding allianceMatches_def Let_def p_def A_def by simp
  have ot: "allianceMatches ''Others'' item \<longleftrightarrow> p \<notin> D \<union> A"
    unfolding allianceMatches_def Let_def p_def D_def A_def by simp blast
  have "D \<inter> A = {}"
    unfolding D_def A_def by simp
  with dm am ot show ?thesis by blast
qed

lemma mapAllianceMatches_exactly_one:
  "(mapAllianceMatches ''DMK+'' item \<and> \<not> mapAllianceMatches ''ADMK+'' item \<and> \<not> mapAllianceMatches ''Others'' item) \<or>
   (\<not> mapAllianceMatches ''DMK+'' item \<and> mapAllianceMatches ''ADMK+'' item \<and> \<not> mapAllianceMatches ''Others'' item) \<or>
   (\<not> mapAllianceMatches ''DMK+'' item \<and> \<not> mapAllianceMatches ''ADMK+'' item \<and> mapAllianceMatches ''Others'' item)"
proof -
  define p where "p = Party item"
  define D where "D = set (map Val [''DMK'', ''INC'', ''VCK'', ''CPI'', ''CPM'', ''CPI(M)'', ''IUML'',
    ''KMDK'', ''MDMK'', ''MMK''])"
  define A where "A = set (map Val [''ADMK'', ''BJP'', ''PMK'', ''TMC'', ''TMC(M)''])"
  have dm: "mapAllianceMatches ''DMK+'' item \<longleftrightarrow> p \<in> D"
    unfolding mapAllianceMatches_def Let_def p_def D_def by simp
  have am: "mapAllianceMatches ''ADMK+'' item \<longleftrightarrow> p \<in> A"
    unfolding mapAllianceMatches_def Let_def p_def A_def by simp
  have ot: "mapAllianceMatches ''Others'' item \<longleftrightarrow> p \<notin> D \<union> A"
    unfolding mapAllianceMatches_def Let_def p_def D_def A_def by simp blast
  have "D \<inter> A = {}"
    unfolding D_def A_def by simp
  with dm am ot show ?thesis by blast
qed

text \<open>
  Claim C3.  The claim is that the master sheet and the map decide alliance membership
  from the same party sets.  They do not: the master sheet's \<open>ADMK+\<close> list has
  \<open>AMMK\<close> and \<open>AIADMK\<close>, the map's list has neither (and the dashboard's
  \<open>NDA_PARTIES\<close> also lacks \<open>TMC\<close>).  For a winner of party \<open>AMMK\<close> the
  master sheet answers \<open>ADMK+\<close> and keeps the row, while the map answers
  \<open>Others\<close> and drops it, and the dashboard counts the seat under the others.
\<close>

theorem alliance_tables_disagree:
  "allianceMatches ''ADMK+'' (blank_row\<lparr>Party := Val ''AMMK'', Position := Val 1\<rparr>) \<and>
   \<not> mapAllianceMatches ''ADMK+'' (blank_row\<lparr>Party := Val ''AMMK'', Position := Val 1\<rparr>) \<and>
   \<not> allianceMatches ''Others'' (blank_row\<lparr>Party := Val ''AMMK'', Position := Val 1\<rparr>) \<and>
   mapAllianceMatches ''Others'' (blank_row\<lparr>Party := Val ''AMMK'', Position := Val 1\<rparr>) \<and>
   processedData (\<lambda>a b. 0) (\<lambda>y. []) (initialState\<lparr>selectedAlliance := ''ADMK+''\<rparr>)
     [blank_row\<lparr>Party := Val ''AMMK'', Position := Val 1\<rparr>]
     = Inr [blank_row\<lparr>Party := Val ''AMMK'', Position := Val 1\<rparr>] \<and>
   filteredData (mapInitialState\<lparr>map_selectedAlliance := ''ADMK+''\<rparr>)
     [blank_row\<lparr>Party := Val ''AMMK'', Position := Val 1\<rparr>] = Inr [] \<and>
   allianceWins [blank_row\<lparr>Party := Val ''AMMK'', Position := Val 1\<rparr>] = (0, 0, 1)"
proof -
  let ?z = "blank_row\<lparr>Party := Val ''AMMK'', Position := Val 1\<rparr>"
  have t: "trimmedParty ?z = ''AMMK''"
    by (simp add: trimmedParty_def trim_def is_space_def)
  have 1: "allianceMatches ''ADMK+'' ?z" and 3: "\<not> allianceMatches ''Others'' ?z"
    by (simp_all add: allianceMatches_def t)
  have 2: "\<not> mapAllianceMatches ''ADMK+'' ?z" and 4: "mapAllianceMatches ''Others'' ?z"
    by (simp_all add: mapAllianceMatches_def)
  have 5: "processedData (\<lambda>a b. 0) (\<lambda>y. []) (initialState\<lparr>selectedAlliance := ''ADMK+''\<rparr>) [?z] = Inr [?z]"
    using 1 by (simp add: pipeline_defs blank_row_fields)
  have 6: "filteredData (mapInitialState\<lparr>map_selectedAlliance := ''ADMK+''\<rparr>) [?z] = Inr []"
    using 2 by (simp add: filteredData_def mapInitialState_def)
  have 7: "allianceWins [?z] = (0, 0, 1)"
    by (simp add: allianceWins_def winners_def SPA_PARTIES_def NDA_PARTIES_def)
  from 1 2 3 4 5 6 7 show ?thesis by blast
qed

section \<open>Properties of the aggregations\<close>

lemma truthy_bool_iff: "truthy_bool v \<longleftrightarrow> v = Val True"
  by (cases v) auto

lemma count_flagged:
  "length (filter (\<lambda>d. truthy_bool (flag d)) data) = card (flagged flag data)"
  by (simp add: length_filter_conv_card flagged_def truthy_bool_iff)

lemma count_flaggedWinners:
  "length (filter (\<lambda>d. truthy_bool (flag d) \<and> Position d = Val 1) data)
     = card (flaggedWinners flag data)"
  by (simp add: length_filter_conv_card flaggedWinners_def truthy_bool_iff)

lemma flaggedWinners_le: "card (flaggedWinners flag data) \<le> card (flagged flag data)"
proof (rule card_mono)
  show "finite (flagged flag data)"
    by (simp add: flagged_def)
  show "flaggedWinners flag data \<subseteq> flagged flag data"
    by (auto simp: flagged_def flaggedWinners_def)
qed

text \<open>Without the guard the rate of an empty category would be \<open>NaN\<close>.\<close>

lemma unguarded_rate_NaN: "Math_round (js_times fl (js_divide fl 0 0) 100) = NaN"
  by (simp add: js_divide_def)

lemma winRate_value:
  "winRate fl w t =
     (if t = 0 then Number 0
      else Number (of_int \<lfloor>fl (fl (real w / real t) * 100) + 1 / 2\<rfloor>))"
  by (simp add: winRate_def js_divide_def)

lemma winRate_bounds:
  assumes "faithful_rounding fl" and "w \<le> t"
  shows "\<exists>r. winRate fl w t = Number r \<and> 0 \<le> r \<and> r \<le> 100"
proof (cases "t = 0")
  case True
  then show ?thesis by (simp add: winRate_value)
next
  case False
  from assms(1) have mono: "\<And>x y. x \<le> y \<Longrightarrow> fl x \<le> fl y"
    and f0: "fl 0 = 0" and f1: "fl 1 = 1" and f100: "fl 100 = 100"
    by (simp_all add: faithful_rounding_def)
  from False assms(2) have "0 \<le> real w / real t" and "real w / real t \<le> 1"
    by simp_all
  with mono [of 0 "real w / real t"] mono [of "real w / real t" 1] f0 f1
  have "0 \<le> fl (real w / real t) * 100" and "fl (real w / real t) * 100 \<le> 100"
    by simp_all
  with mono [of 0 "fl (real w / real t) * 100"] mono [of "fl (real w / real t) * 100" 100] f0 f100
  have "0 \<le> fl (fl (real w / real t) * 100)" and "fl (fl (real w / real t) * 100) \<le> 100"
    by simp_all
  then have "0 \<le> \<lfloor>fl (fl (real w / real t) * 100) + 1 / 2\<rfloor>"
    and "\<lfloor>fl (fl (real w / real t) * 100) + 1 / 2\<rfloor> \<le> 100"
    by (simp_all add: le_floor_iff floor_le_iff)
  with False show ?thesis
    by (simp add: winRate_value)
qed

lemma categoryData_entries:
  "categoryData fl data =
     [\<lparr>cat_name = ''Incumbents'',
        rate = winRate fl (card (flaggedWinners Incumbent data)) (card (flagged Incumbent data)),
        total = card (flagged Incumbent data), wins = card (flaggedWinners Incumbent data)\<rparr>,
      \<lparr>cat_name = ''Turncoats'',
        rate = winRate fl (card (flaggedWinners Turncoat data)) (card (flagged Turncoat data)),
        total = card (flagged Turncoat data), wins = card (flaggedWinners Turncoat data)\<rparr>,
      \<lparr>cat_name = ''Recontesting'',
        rate = winRate fl (card (flaggedWinners Recontest data)) (card (flagged Recontest data)),
        total = card (flagged Recontest data), wins = card (flaggedWinners Recontest data)\<rparr>]"
  by (simp add: categoryData_def Let_def count_flagged count_flaggedWinners)

lemma statsData_cases:
  "statsData fl processed data =
     (if processed = [] then None
      else Some (categoryData fl data,
                 eduData (if filter (\<lambda>d. Position d = Val 1) processed \<noteq> []
                          then filter (\<lambda>d. Position d = Val 1) processed else processed)))"
  by (simp add: statsData_def Let_def)

text \<open>
  Claim C8.  The aggregation has one entry for each category, in the order incumbents,
  turncoats, recontesting candidates.  The entry's total is the number of rows of the
  whole data set that carry the category's flag, and its wins the number of those rows
  with position 1.  Its rate is \<open>0\<close> when the total is \<open>0\<close>, and otherwise the
  quotient \<open>wins / total\<close> times 100, each result rounded to a double, rounded to the
  nearest integer.  The rate is always a number between 0 and 100, never \<open>NaN\<close>
  or \<open>Infinity\<close>.  \<open>statsData\<close> holds these entries whenever the filtered set is
  not empty, and is \<open>null\<close> otherwise.
\<close>

theorem winRate_zero_safe:
  assumes "faithful_rounding fl"
  shows "map (\<lambda>c. (cat_name c, total c, wins c)) (categoryData fl data) =
           [(''Incumbents'', card (flagged Incumbent data), card (flaggedWinners Incumbent data)),
            (''Turncoats'', card (flagged Turncoat data), card (flaggedWinners Turncoat data)),
            (''Recontesting'', card (flagged Recontest data), card (flaggedWinners Recontest data))] \<and>
         (\<forall>c \<in> set (categoryData fl data).
            rate c = (if total c = 0 then Number 0
                      else Number (of_int \<lfloor>fl (fl (real (wins c) / real (total c)) * 100) + 1 / 2\<rfloor>)) \<and>
            (\<exists>r. rate c = Number r \<and> 0 \<le> r \<and> r \<le> 100)) \<and>
         (processed \<noteq> [] \<longrightarrow>
            (\<exists>edu. statsData fl processed data = Some (categoryData fl data, edu))) \<and>
         (processed = [] \<longrightarrow> statsData fl processed data = None)"
proof -
  have names: "map (\<lambda>c. (cat_name c, total c, wins c)) (categoryData fl data) =
           [(''Incumbents'', card (flagged Incumbent data), card (flaggedWinners Incumbent data)),
            (''Turncoats'', card (flagged Turncoat data), card (flaggedWinners Turncoat data)),
            (''Recontesting'', card (flagged Recontest data), card (flaggedWinners Recontest data))]"
    by (simp add: categoryData_entries)
  have rates: "rate c = (if total c = 0 then Number 0
                      else Number (of_int \<lfloor>fl (fl (real (wins c) / real (total c)) * 100) + 1 / 2\<rfloor>)) \<and>
            (\<exists>r. rate c = Number r \<and> 0 \<le> r \<and> r \<le> 100)"
    if "c \<in> set (categoryData fl data)" for c
  proof -
    from that obtain flag where r: "rate c = winRate fl (wins c) (total c)"
      and t: "total c = card (flagged flag data)" and w: "wins c = card (flaggedWinners flag data)"
      unfolding categoryData_entries by auto
    from t w have "wins c \<le> total c"
      by (simp add: flaggedWinners_le)
    from winRate_bounds [OF assms this] r show ?thesis
      by (simp add: winRate_value)
  qed
  have some: "processed \<noteq> [] \<longrightarrow>
      (\<exists>edu. statsData fl processed data = Some (categoryData fl data, edu))"
    by (simp add: statsData_cases)
  have none: "processed = [] \<longrightarrow> statsData fl processed data = None"
    by (simp add: statsData_cases)
  from names rates some none show ?thesis
    by blast
qed

lemma round53_faithful: "faithful_rounding round53"
  unfolding faithful_rounding_def round53_def
  by (auto simp: divide_right_mono floor_mono)

lemma winRate_round53_23_40: "winRate round53 23 40 = Number 57"
  by (simp add: winRate_value round53_def)

theorem winRate_zero_safe_witness:
  "faithful_rounding round53 \<and>
   categoryData round53 [] =
     [\<lparr>cat_name = ''Incumbents'', rate = Number 0, total = 0, wins = 0\<rparr>,
      \<lparr>cat_name = ''Turncoats'', rate = Number 0, total = 0, wins = 0\<rparr>,
      \<lparr>cat_name = ''Recontesting'', rate = Number 0, total = 0, wins = 0\<rparr>] \<and>
   categoryData round53 [blank_row\<lparr>Incumbent := Val True, Position := Val 1\<rparr>,
                         blank_row\<lparr>Incumbent := Val True, Position := Val 2\<rparr>,
                         blank_row\<lparr>Incumbent := Val True, Position := Val 3\<rparr>,
                         blank_row\<lparr>Incumbent := Val False, Position := Val 1\<rparr>] =
     [\<lparr>cat_name = ''Incumbents'', rate = Number 33, total = 3, wins = 1\<rparr>,
      \<lparr>cat_name = ''Turncoats'', rate = Number 0, total = 0, wins = 0\<rparr>,
      \<lparr>cat_name = ''Recontesting'', rate = Number 0, total = 0, wins = 0\<rparr>] \<and>
   winRate round53 23 40 = Number 57 \<and>
   statsData round53 [] [] = None"
proof -
  have e: "categoryData round53 [] =
     [\<lparr>cat_name = ''Incumbents'', rate = Number 0, total = 0, wins = 0\<rparr>,
      \<lparr>cat_name = ''Turncoats'', rate = Number 0, total = 0, wins = 0\<rparr>,
      \<lparr>cat_name = ''Recontesting'', rate = Number 0, total = 0, wins = 0\<rparr>]"
    by (simp add: categoryData_def winRate_def)
  have d: "categoryData round53 [blank_row\<lparr>Incumbent := Val True, Position := Val 1\<rparr>,
                         blank_row\<lparr>Incumbent := Val True, Position := Val 2\<rparr>,
                         blank_row\<lparr>Incumbent := Val True, Position := Val 3\<rparr>,
                         blank_row\<lparr>Incumbent := Val False, Position := Val 1\<rparr>] =
     [\<lparr>cat_name = ''Incumbents'', rate = Number 33, total = 3, wins = 1\<rparr>,
      \<lparr>cat_name = ''Turncoats'', rate = Number 0, total = 0, wins = 0\<rparr>,
      \<lparr>cat_name = ''Recontesting'', rate = Number 0, total = 0, wins = 0\<rparr>]"
    by (simp add: categoryData_def winRate_value round53_def blank_row_fields)
  from winRate_zero_safe [OF round53_faithful, of "[]" "[]"]
  have n: "statsData round53 [] [] = None"
    by blast
  from round53_faithful e d winRate_round53_23_40 n show ?thesis
    by (intro conjI)
qed

section \<open>Properties of the reconciliation index\<close>

lemma filteredData_winners:
  "filteredData st data = Inr fs \<Longrightarrow> set fs \<subseteq> {d \<in> set data. Position d = Val 1}"
  unfolding filteredData_def Let_def if_filter filter_filter_conj
  by (auto dest!: filterE_Inr split: if_splits)

lemma fillMap_entries:
  "fillMap data ws m = Inr m' \<Longrightarrow> m' k = Some e \<Longrightarrow>
     m k = Some e \<or> (\<exists>w\<in>set ws. e = \<lparr>winner = w, runnerUp = findRunnerUp data w\<rparr>)"
proof (induction ws arbitrary: m)
  case Nil
  then show ?case by simp
next
  case (Cons w ws)
  from Cons.prems(1) obtain n where n: "Constituency_Name w = Val n"
    and r: "fillMap data ws (m(indexKey n \<mapsto> \<lparr>winner = w, runnerUp = findRunnerUp data w\<rparr>)) = Inr m'"
    by (cases "Constituency_Name w") (simp_all add: Let_def)
  from Cons.IH [OF r Cons.prems(2)] show ?case
    by (auto split: if_splits)
qed

lemma fillMap_returns:
  "list_all hasName ws \<Longrightarrow> \<exists>m'. fillMap data ws m = Inr m'"
  by (induction ws arbitrary: m) (auto simp: Let_def hasName_def split: js.splits)

lemma mapSearchMatches_raises: "mapSearchMatches t item \<noteq> Inl TypeError \<longleftrightarrow> hasName item"
  by (cases "Constituency_Name item") (simp_all add: mapSearchMatches_def hasName_def)

lemma filteredData_returns:
  "list_all hasName data \<Longrightarrow> \<exists>fs. filteredData st data = Inr fs \<and> list_all hasName fs"
proof -
  assume a: "list_all hasName data"
  have sub: "list_all hasName (filter q data)" for q
    using a by (simp add: list_all_iff)
  have "\<exists>fs. filterE (mapSearchMatches t) (filter q data) = Inr fs \<and> list_all hasName fs" for t q
    using filterE_total [of "mapSearchMatches t" "filter q data"] sub [of q]
    by (simp add: mapSearchMatches_raises list_all_iff)
  with sub show ?thesis
    unfolding filteredData_def Let_def if_filter filter_filter_conj by simp
qed

lemma resultsMap_returns:
  "list_all hasName data \<Longrightarrow> \<exists>m. resultsMap st data = Inr m"
proof -
  assume "list_all hasName data"
  from filteredData_returns [OF this] obtain fs where
    "filteredData st data = Inr fs" and "list_all hasName fs"
    by blast
  with fillMap_returns [of fs data Map.empty] show ?thesis
    by (auto simp: resultsMap_def)
qed

lemma resultsMap_entries:
  assumes "resultsMap st data = Inr m" and "m k = Some e"
  shows "runnerUp e = findRunnerUp data (winner e) \<and> winner e \<in> set data \<and> Position (winner e) = Val 1"
proof -
  from assms(1) obtain fs where fs: "filteredData st data = Inr fs"
    and fm: "fillMap data fs Map.empty = Inr m"
    by (auto simp: resultsMap_def split: sum.splits)
  from fillMap_entries [OF fm assms(2)] obtain w where "w \<in> set fs"
    and "e = \<lparr>winner = w, runnerUp = findRunnerUp data w\<rparr>"
    by auto
  with filteredData_winners [OF fs] show ?thesis by auto
qed

lemma cross_year_example:
  "resultsMap mapInitialState
     [blank_row\<lparr>Constituency_Name := Val ''Chennai'', Position := Val 1, Year := Val 2021\<rparr>,
      blank_row\<lparr>Constituency_Name := Val ''Chennai'', Position := Val 2, Year := Val 2016\<rparr>,
      blank_row\<lparr>Constituency_Name := Val ''Chennai'', Position := Val 2, Year := Val 2021\<rparr>]
   = Inr (Map.empty(''chennai'' \<mapsto>
       \<lparr>winner = blank_row\<lparr>Constituency_Name := Val ''Chennai'', Position := Val 1, Year := Val 2021\<rparr>,
        runnerUp = Some (blank_row\<lparr>Constituency_Name := Val ''Chennai'', Position := Val 2, Year := Val 2016\<rparr>)\<rparr>))"
proof -
  have k: "indexKey ''Chennai'' = ''chennai''"
    by (simp add: indexKey_def toLowerCase_def lower_char_def upper_letters_def
        lower_letters_def trim_def is_space_def)
  show ?thesis
    by (simp add: resultsMap_def filteredData_def mapInitialState_def findRunnerUp_def k)
qed

text \<open>
  Claim C10.  In every entry of the reconciliation index the runner-up is the first row,
  in input order, of the whole data set whose constituency name is the winner's and
  whose position is 2 (and there is none iff no such row exists): the search runs over
  \<open>data\<close>, not over the filtered winners, and does not look at the year.  The index is
  built whenever every row has a constituency name.  So a winner can be paired with the
  rank-2 row of another year, as in the data set of \<open>cross_year_example\<close>.
\<close>

theorem runnerUp_resolution:
  "(resultsMap st data = Inr m \<and> m k = Some e \<longrightarrow>
      runnerUp e = find (\<lambda>d. Constituency_Name d = Constituency_Name (winner e) \<and>
                               Position d = Val 2) data \<and>
      winner e \<in> set data \<and> Position (winner e) = Val 1) \<and>
   (list_all hasName data \<longrightarrow> (\<exists>res. resultsMap st data = Inr res)) \<and>
   (\<exists>rows idx entry r. resultsMap mapInitialState rows = Inr idx \<and>
      idx ''chennai'' = Some entry \<and> runnerUp entry = Some r \<and> Year (winner entry) \<noteq> Year r)"
proof -
  have general: "runnerUp e = find (\<lambda>d. Constituency_Name d = Constituency_Name (winner e) \<and>
                               Position d = Val 2) data \<and>
      winner e \<in> set data \<and> Position (winner e) = Val 1"
    if "resultsMap st data = Inr m" and "m k = Some e"
    using resultsMap_entries [OF that] by (simp add: findRunnerUp_def)
  have returns: "\<exists>res. resultsMap st data = Inr res" if "list_all hasName data"
    using resultsMap_returns [OF that] .
  let ?w = "blank_row\<lparr>Constituency_Name := Val ''Chennai'', Position := Val 1, Year := Val 2021\<rparr>"
  let ?r16 = "blank_row\<lparr>Constituency_Name := Val ''Chennai'', Position := Val 2, Year := Val 2016\<rparr>"
  let ?r21 = "blank_row\<lparr>Constituency_Name := Val ''Chennai'', Position := Val 2, Year := Val 2021\<rparr>"
  let ?e = "\<lparr>winner = ?w, runnerUp = Some ?r16\<rparr>"
  let ?m = "Map.empty(''chennai'' \<mapsto> ?e)"
  have "resultsMap mapInitialState [?w, ?r16, ?r21] = Inr ?m \<and>
      ?m ''chennai'' = Some ?e \<and> runnerUp ?e = Some ?r16 \<and> Year (winner ?e) \<noteq> Year ?r16"
    using cross_year_example by simp
  then have example: "\<exists>rows idx entry r. resultsMap mapInitialState rows = Inr idx \<and>
      idx ''chennai'' = Some entry \<and> runnerUp entry = Some r \<and> Year (winner entry) \<noteq> Year r"
    by (intro exI)
  from general returns example show ?thesis
    by (intro conjI impI) simp_all
qed

theorem runnerUp_resolution_witness:
  "resultsMap mapInitialState
     [blank_row\<lparr>Constituency_Name := Val ''Chennai'', Position := Val 1, Year := Val 2021\<rparr>,
      blank_row\<lparr>Constituency_Name := Val ''Chennai'', Position := Val 2, Year := Val 2016\<rparr>,
      blank_row\<lparr>Constituency_Name := Val ''Chennai'', Position := Val 2, Year := Val 2021\<rparr>]
   = Inr (Map.empty(''chennai'' \<mapsto>
       \<lparr>winner = blank_row\<lparr>Constituency_Name := Val ''Chennai'', Position := Val 1, Year := Val 2021\<rparr>,
        runnerUp = Some (blank_row\<lparr>Constituency_Name := Val ''Chennai'', Position := Val 2, Year := Val 2016\<rparr>)\<rparr>)) \<and>
   find (\<lambda>d. Constituency_Name d = Val ''Chennai'' \<and> Position d = Val 2)
     [blank_row\<lparr>Constituency_Name := Val ''Chennai'', Position := Val 1, Year := Val 2021\<rparr>,
      blank_row\<lparr>Constituency_Name := Val ''Chennai'', Position := Val 2, Year := Val 2016\<rparr>,
      blank_row\<lparr>Constituency_Name := Val ''Chennai'', Position := Val 2, Year := Val 2021\<rparr>]
   = Some (blank_row\<lparr>Constituency_Name := Val ''Chennai'', Position := Val 2, Year := Val 2016\<rparr>)"
proof -
  let ?w = "blank_row\<lparr>Constituency_Name := Val ''Chennai'', Position := Val 1, Year := Val 2021\<rparr>"
  let ?r16 = "blank_row\<lparr>Constituency_Name := Val ''Chennai'', Position := Val 2, Year := Val 2016\<rparr>"
  let ?r21 = "blank_row\<lparr>Constituency_Name := Val ''Chennai'', Position := Val 2, Year := Val 2021\<rparr>"
  let ?e = "\<lparr>winner = ?w, runnerUp = Some ?r16\<rparr>"
  let ?m = "Map.empty(''chennai'' \<mapsto> ?e)"
  have k: "?m ''chennai'' = Some ?e"
    by simp
  have n: "Constituency_Name (winner ?e) = Val ''Chennai''" and r: "runnerUp ?e = Some ?r16"
    by simp_all
  from runnerUp_resolution [of mapInitialState "[?w, ?r16, ?r21]" ?m "''chennai''" ?e]
  have "resultsMap mapInitialState [?w, ?r16, ?r21] = Inr ?m \<and> ?m ''chennai'' = Some ?e \<longrightarrow>
      runnerUp ?e = find (\<lambda>d. Constituency_Name d = Constituency_Name (winner ?e) \<and>
                               Position d = Val 2) [?w, ?r16, ?r21] \<and>
      winner ?e \<in> set [?w, ?r16, ?r21] \<and> Position (winner ?e) = Val 1"
    by (rule conjunct1)
  with cross_year_example k
  have "runnerUp ?e = find (\<lambda>d. Constituency_Name d = Constituency_Name (winner ?e) \<and>
                               Position d = Val 2) [?w, ?r16, ?r21]"
    by blast
  then have "find (\<lambda>d. Constituency_Name d = Val ''Chennai'' \<and> Position d = Val 2)
      [?w, ?r16, ?r21] = Some ?r16"
    unfolding n r by (rule sym)
  with cross_year_example show ?thesis
    by (rule conjI)
qed

section \<open>End-to-end scenario\<close>

text \<open>
  Claim C1.  The data set has two rows for the constituency \<open>Chennai\<close>: the DMK
  candidate with position 1, margin 12000 and 50000 votes, and the ADMK candidate with
  position 2 and 38000 votes.  The feature named \<open>Chennai (SC)\<close>, whatever its
  identifier, is joined to the entry whose winner is the DMK row and whose runner-up is
  the ADMK row; the filter engine with the margin facet at \<open>Medium\<close> keeps the DMK row
  only; and the seat count of that subset is one seat for DMK.
\<close>

theorem end_to_end_chennai:
  "(case resultsMap mapInitialState
           [blank_row\<lparr>Constituency_Name := Val ''Chennai'', Party := Val ''DMK'',
              Position := Val 1, Margin := Val 12000, Votes := Val 50000\<rparr>,
            blank_row\<lparr>Constituency_Name := Val ''Chennai'', Party := Val ''ADMK'',
              Position := Val 2, Votes := Val 38000\<rparr>]
    of Inr idx \<Rightarrow> reconcile idx \<lparr>AC_NAME = Val ''Chennai (SC)'', ac_name = alt, AC_NO = n, ac_no = n'\<rparr>
     | Inl e \<Rightarrow> None)
   = Some \<lparr>winner = blank_row\<lparr>Constituency_Name := Val ''Chennai'', Party := Val ''DMK'',
              Position := Val 1, Margin := Val 12000, Votes := Val 50000\<rparr>,
           runnerUp = Some (blank_row\<lparr>Constituency_Name := Val ''Chennai'', Party := Val ''ADMK'',
              Position := Val 2, Votes := Val 38000\<rparr>)\<rparr> \<and>
   processedData localeCompare numToString (initialState\<lparr>marginRange := ''Medium''\<rparr>)
     [blank_row\<lparr>Constituency_Name := Val ''Chennai'', Party := Val ''DMK'',
        Position := Val 1, Margin := Val 12000, Votes := Val 50000\<rparr>,
      blank_row\<lparr>Constituency_Name := Val ''Chennai'', Party := Val ''ADMK'',
        Position := Val 2, Votes := Val 38000\<rparr>]
   = Inr [blank_row\<lparr>Constituency_Name := Val ''Chennai'', Party := Val ''DMK'',
            Position := Val 1, Margin := Val 12000, Votes := Val 50000\<rparr>] \<and>
   map (\<lambda>p. (win_name p, win_value p))
     (partyWins partyTranslations
        [blank_row\<lparr>Constituency_Name := Val ''Chennai'', Party := Val ''DMK'',
           Position := Val 1, Margin := Val 12000, Votes := Val 50000\<rparr>])
   = [(''DMK'', 1)]"
proof -
  let ?dmk = "blank_row\<lparr>Constituency_Name := Val ''Chennai'', Party := Val ''DMK'',
              Position := Val 1, Margin := Val 12000, Votes := Val 50000\<rparr>"
  let ?admk = "blank_row\<lparr>Constituency_Name := Val ''Chennai'', Party := Val ''ADMK'',
              Position := Val 2, Votes := Val 38000\<rparr>"
  let ?f = "\<lparr>AC_NAME = Val ''Chennai (SC)'', ac_name = alt, AC_NO = n, ac_no = n'\<rparr>"
  have k: "indexKey ''Chennai'' = ''chennai''"
    by (simp add: indexKey_def toLowerCase_def lower_char_def upper_letters_def
        lower_letters_def trim_def is_space_def)
  have idx: "resultsMap mapInitialState [?dmk, ?admk] =
      Inr (Map.empty(''chennai'' \<mapsto> \<lparr>winner = ?dmk, runnerUp = Some ?admk\<rparr>))"
    by (simp add: resultsMap_def filteredData_def mapInitialState_def findRunnerUp_def k)
  have key: "getNormalizedName ?f = ''chennai''"
    by (simp add: getNormalizedName_def or_str_def toLowerCase_def lower_char_def
      upper_letters_def lower_letters_def trim_def is_space_def mapped_name_def
      NAME_MAPPING_def)
  have 1: "(case resultsMap mapInitialState [?dmk, ?admk] of
              Inr idx \<Rightarrow> reconcile idx ?f | Inl e \<Rightarrow> None)
           = Some \<lparr>winner = ?dmk, runnerUp = Some ?admk\<rparr>"
    by (simp add: idx reconcile_def key)
  have 2: "processedData localeCompare numToString (initialState\<lparr>marginRange := ''Medium''\<rparr>)
      [?dmk, ?admk] = Inr [?dmk]"
    by (simp add: processedData_margin_only marginMatches_def blank_row_fields)
  have 3: "map (\<lambda>p. (win_name p, win_value p)) (partyWins partyTranslations [?dmk]) = [(''DMK'', 1)]"
    by (simp add: partyWins_def winners_def array_sort_def)
  from 1 2 3 show ?thesis by (intro conjI)
qed

section \<open>Properties of the sort\<close>

lemma field_value_kind:
  "is_nullish (field_value k a) \<or> is_nullish (field_value k b) \<or>
   kind (field_value k a) = kind (field_value k b)"
proof -
  have n: "is_nullish (of_num u) \<or> is_nullish (of_num v) \<or> kind (of_num u) = kind (of_num v)" for u v
    by (cases u; cases v) simp_all
  have s: "is_nullish (of_str u) \<or> is_nullish (of_str v) \<or> kind (of_str u) = kind (of_str v)" for u v
    by (cases u; cases v) simp_all
  have b: "is_nullish (of_bool u) \<or> is_nullish (of_bool v) \<or> kind (of_bool u) = kind (of_bool v)" for u v
    by (cases u; cases v) simp_all
  show ?thesis
    by (cases k) (simp_all add: n s b)
qed

lemma compareValues_nullish_left:
  "is_nullish a \<Longrightarrow> compareValues lc n2s dir a b = (if a = b then 0 else 1)"
  by (simp add: compareValues_def)

lemma compareValues_nullish_right:
  "\<not> is_nullish a \<Longrightarrow> is_nullish b \<Longrightarrow> compareValues lc n2s dir a b = - 1"
  by (auto simp: compareValues_def)

lemma compareValues_num:
  "compareValues lc n2s dir (JNum x) (JNum y) = (if dir = Asc then x - y else y - x)"
  by (simp add: compareValues_def)

lemma compareValues_other:
  "\<not> is_nullish a \<Longrightarrow> \<not> is_nullish b \<Longrightarrow> a \<noteq> b \<Longrightarrow> \<not> (kind a = 1 \<and> kind b = 1) \<Longrightarrow>
   compareValues lc n2s dir a b =
     (if dir = Asc then lc (String_val n2s a) (String_val n2s b)
      else lc (String_val n2s b) (String_val n2s a))"
  by (cases a; cases b) (simp_all add: compareValues_def)

text \<open>The comparator with the direction folded into the string comparison.\<close>

lemma consistent_flip:
  "consistent_compare lc \<Longrightarrow> consistent_compare (\<lambda>s t. lc t s)"
  unfolding consistent_compare_def by blast

lemma consistent_total: "consistent_compare lc \<Longrightarrow> lc s t > 0 \<Longrightarrow> lc t s < 0"
  unfolding consistent_compare_def by blast

lemma consistent_sym0: "consistent_compare lc \<Longrightarrow> lc s t = 0 \<Longrightarrow> lc t s = 0"
  unfolding consistent_compare_def by (metis less_irrefl linorder_neqE_linordered_idom)

lemma consistent_trans:
  "consistent_compare lc \<Longrightarrow> lc s t \<le> 0 \<Longrightarrow> lc t u \<le> 0 \<Longrightarrow> lc s u \<le> 0"
  unfolding consistent_compare_def by blast

text \<open>Values with a content of the same kind are totally preordered by the comparator.\<close>

lemma compareValues_total:
  assumes "consistent_compare lc" "\<not> is_nullish a" "\<not> is_nullish b" "kind a = kind b"
    and "compareValues lc n2s dir a b > 0"
  shows "compareValues lc n2s dir b a < 0"
proof (cases "kind a = 1")
  case True
  with assms(4) obtain x y where "a = JNum x" "b = JNum y"
    by (cases a; cases b) simp_all
  with assms(5) show ?thesis
    by (simp add: compareValues_num split: if_splits)
next
  case False
  from assms(5) have ne: "a \<noteq> b"
    by (auto simp: compareValues_def)
  from False have k: "\<not> (kind a = 1 \<and> kind b = 1)" "\<not> (kind b = 1 \<and> kind a = 1)"
    by simp_all
  from ne have ne': "b \<noteq> a" by simp
  show ?thesis
    using assms(5) consistent_total [OF assms(1)]
    unfolding compareValues_other [OF assms(2,3) ne k(1)]
      compareValues_other [OF assms(3,2) ne' k(2)]
    by (simp split: if_splits)
qed

lemma compareValues_sym0:
  assumes "consistent_compare lc" "\<not> is_nullish a" "\<not> is_nullish b" "kind a = kind b"
    and "compareValues lc n2s dir a b = 0"
  shows "compareValues lc n2s dir b a = 0"
proof (cases "a = b")
  case True
  then show ?thesis by (simp add: compareValues_def)
next
  case ne: False
  then have ne': "b \<noteq> a" by simp
  show ?thesis
  proof (cases "kind a = 1")
    case True
    with assms(4) obtain x y where "a = JNum x" "b = JNum y"
      by (cases a; cases b) simp_all
    with assms(5) show ?thesis
      by (simp add: compareValues_num split: if_splits)
  next
    case False
    then have k: "\<not> (kind a = 1 \<and> kind b = 1)" "\<not> (kind b = 1 \<and> kind a = 1)"
      by simp_all
    show ?thesis
      using assms(5) consistent_sym0 [OF assms(1)]
      unfolding compareValues_other [OF assms(2,3) ne k(1)]
        compareValues_other [OF assms(3,2) ne' k(2)]
      by (simp split: if_splits)
  qed
qed

lemma compareValues_le_cases:
  assumes "\<not> is_nullish a" "\<not> is_nullish b" "kind a \<noteq> 1"
  shows "compareValues lc n2s dir a b \<le> 0 \<longleftrightarrow>
     a = b \<or> (if dir = Asc then lc (String_val n2s a) (String_val n2s b) \<le> 0
               else lc (String_val n2s b) (String_val n2s a) \<le> 0)"
proof (cases "a = b")
  case True
  then show ?thesis by (simp add: compareValues_def)
next
  case False
  from assms(3) have "\<not> (kind a = 1 \<and> kind b = 1)" by simp
  from compareValues_other [OF assms(1,2) False this] False show ?thesis
    by simp
qed

lemma compareValues_trans:
  assumes c: "consistent_compare lc"
    and v: "\<not> is_nullish a" "\<not> is_nullish b" "\<not> is_nullish d"
    and k: "kind a = kind b" "kind b = kind d"
    and le: "compareValues lc n2s dir a b \<le> 0" "compareValues lc n2s dir b d \<le> 0"
  shows "compareValues lc n2s dir a d \<le> 0"
proof (cases "kind a = 1")
  case True
  with k obtain x y z where "a = JNum x" "b = JNum y" "d = JNum z"
    by (cases a; cases b; cases d) simp_all
  with le show ?thesis
    by (simp add: compareValues_num split: if_splits)
next
  case False
  with k have kb: "kind b \<noteq> 1" by simp
  note ab = le(1) [unfolded compareValues_le_cases [OF v(1,2) False]]
  note bd = le(2) [unfolded compareValues_le_cases [OF v(2,3) kb]]
  show ?thesis
    unfolding compareValues_le_cases [OF v(1,3) False]
    using ab bd consistent_trans [OF c]
    by (cases "dir = Asc") auto
qed

subsection \<open>Insertion into an ordered list\<close>

lemma insertBy_set: "set (insertBy cmp x ys) = insert x (set ys)"
  using insertBy_mset [of cmp x ys] by (metis set_mset_add_mset_insert set_mset_mset)

lemma insertBy_sorted_wrt:
  assumes le: "\<And>y. cmp x y \<le> 0 \<Longrightarrow> R x y"
    and gt: "\<And>y. cmp x y > 0 \<Longrightarrow> R y x"
    and tr: "\<And>y z. cmp x y \<le> 0 \<Longrightarrow> R y z \<Longrightarrow> R x z"
  shows "sorted_wrt R ys \<Longrightarrow> sorted_wrt R (insertBy cmp x ys)"
proof (induction ys)
  case Nil
  then show ?case by simp
next
  case (Cons y ys)
  show ?case
  proof (cases "cmp x y \<le> 0")
    case True
    with Cons.prems le tr show ?thesis by auto
  next
    case False
    then have "R y x" using gt by simp
    with False Cons show ?thesis
      by (auto simp: insertBy_set)
  qed
qed

lemma insertBy_stable:
  assumes "\<And>y. cmp a x = 0 \<Longrightarrow> cmp a y = 0 \<Longrightarrow> cmp x y \<le> 0"
  shows "filter (\<lambda>b. cmp a b = 0) (insertBy cmp x ys) =
         (if cmp a x = 0 then x # filter (\<lambda>b. cmp a b = 0) ys else filter (\<lambda>b. cmp a b = 0) ys)"
  using assms by (induction ys) auto

subsection \<open>The row comparator\<close>

lemma compareRows_in_order:
  assumes c: "consistent_compare lc"
  shows "compareRows lc n2s cfg x y \<le> 0 \<Longrightarrow> rowsInOrder lc n2s cfg x y"
  unfolding rowsInOrder_def compareRows_def
  by (cases "is_nullish (field_value (key cfg) x)") (auto simp: compareValues_nullish_left split: if_splits)

lemma compareRows_out_of_order:
  assumes c: "consistent_compare lc" and gt: "compareRows lc n2s cfg x y > 0"
  shows "rowsInOrder lc n2s cfg y x"
proof (cases "is_nullish (field_value (key cfg) x)")
  case True
  then show ?thesis by (simp add: rowsInOrder_def)
next
  case vx: False
  have vy: "\<not> is_nullish (field_value (key cfg) y)"
  proof
    assume "is_nullish (field_value (key cfg) y)"
    from compareValues_nullish_right [OF vx this] gt show False
      by (simp add: compareRows_def)
  qed
  from field_value_kind [of "key cfg" x y] vx vy
  have k: "kind (field_value (key cfg) x) = kind (field_value (key cfg) y)"
    by simp
  from compareValues_total [OF c vx vy k] gt
  have "compareRows lc n2s cfg y x < 0"
    by (simp add: compareRows_def)
  with vy show ?thesis
    by (simp add: rowsInOrder_def)
qed

lemma rowsInOrder_trans:
  assumes c: "consistent_compare lc"
    and xy: "compareRows lc n2s cfg x y \<le> 0" and yz: "rowsInOrder lc n2s cfg y z"
  shows "rowsInOrder lc n2s cfg x z"
proof (cases "is_nullish (field_value (key cfg) z)")
  case True
  then show ?thesis by (simp add: rowsInOrder_def)
next
  case vz: False
  with yz have vy: "\<not> is_nullish (field_value (key cfg) y)"
    and le: "compareRows lc n2s cfg y z \<le> 0"
    by (simp_all add: rowsInOrder_def)
  from compareRows_in_order [OF c xy] vy
  have vx: "\<not> is_nullish (field_value (key cfg) x)"
    by (simp add: rowsInOrder_def)
  from field_value_kind [of "key cfg" x y] field_value_kind [of "key cfg" y z] vx vy vz
  have k: "kind (field_value (key cfg) x) = kind (field_value (key cfg) y)"
    "kind (field_value (key cfg) y) = kind (field_value (key cfg) z)"
    by simp_all
  from compareValues_trans [OF c vx vy vz k] xy le
  have "compareRows lc n2s cfg x z \<le> 0"
    by (simp add: compareRows_def)
  with vx show ?thesis
    by (simp add: rowsInOrder_def)
qed

lemma compareRows_equiv:
  assumes c: "consistent_compare lc"
    and ax: "compareRows lc n2s cfg a x = 0" and ay: "compareRows lc n2s cfg a y = 0"
  shows "compareRows lc n2s cfg x y \<le> 0"
proof (cases "is_nullish (field_value (key cfg) a)")
  case True
  from ax ay have "field_value (key cfg) x = field_value (key cfg) y"
    by (simp add: compareRows_def compareValues_nullish_left [OF True] split: if_splits)
  then show ?thesis
    by (simp add: compareRows_def compareValues_def)
next
  case va: False
  have vx: "\<not> is_nullish (field_value (key cfg) x)"
  proof
    assume "is_nullish (field_value (key cfg) x)"
    from compareValues_nullish_right [OF va this] ax show False
      by (simp add: compareRows_def)
  qed
  have vy: "\<not> is_nullish (field_value (key cfg) y)"
  proof
    assume "is_nullish (field_value (key cfg) y)"
    from compareValues_nullish_right [OF va this] ay show False
      by (simp add: compareRows_def)
  qed
  from field_value_kind [of "key cfg" a x] field_value_kind [of "key cfg" a y] va vx vy
  have k: "kind (field_value (key cfg) a) = kind (field_value (key cfg) x)"
    "kind (field_value (key cfg) a) = kind (field_value (key cfg) y)"
    by simp_all
  from compareValues_sym0 [OF c va vx k(1)] ax
  have xa: "compareValues lc n2s (direction cfg) (field_value (key cfg) x) (field_value (key cfg) a) \<le> 0"
    by (simp add: compareRows_def)
  from ay have ay': "compareValues lc n2s (direction cfg) (field_value (key cfg) a) (field_value (key cfg) y) \<le> 0"
    by (simp add: compareRows_def)
  from compareValues_trans [OF c vx va vy k(1) [symmetric] k(2) xa ay']
  show ?thesis
    by (simp add: compareRows_def)
qed

subsection \<open>The sorted list\<close>

lemma array_sort_sorted:
  assumes c: "consistent_compare lc"
  shows "sorted_wrt (rowsInOrder lc n2s cfg) (array_sort (compareRows lc n2s cfg) rows)"
proof (induction rows)
  case Nil
  then show ?case by (simp add: array_sort_def)
next
  case (Cons x rows)
  from insertBy_sorted_wrt [of "compareRows lc n2s cfg" x "rowsInOrder lc n2s cfg",
      OF compareRows_in_order [OF c] compareRows_out_of_order [OF c] rowsInOrder_trans [OF c]]
    Cons.IH
  show ?case
    by (simp add: array_sort_def)
qed

lemma array_sort_stable:
  assumes c: "consistent_compare lc"
  shows "filter (\<lambda>b. compareRows lc n2s cfg a b = 0) (array_sort (compareRows lc n2s cfg) rows) =
         filter (\<lambda>b. compareRows lc n2s cfg a b = 0) rows"
proof (induction rows)
  case Nil
  then show ?case by (simp add: array_sort_def)
next
  case (Cons x rows)
  from insertBy_stable [of "compareRows lc n2s cfg" a x, OF compareRows_equiv [OF c]] Cons.IH
  show ?case
    by (simp add: array_sort_def)
qed

lemma passes_sortConfig: "passes n2s (st\<lparr>sortConfig := None\<rparr>) = passes n2s st"
  by (simp add: passes_def passesBeforeYear_def passesAfterYear_def yearPasses_def fun_eq_iff)

lemma passesBeforeYear_sortConfig:
  "passesBeforeYear (st\<lparr>sortConfig := None\<rparr>) = passesBeforeYear st"
  by (simp add: passesBeforeYear_def fun_eq_iff)

lemma processedData_sorted_from_unsorted:
  assumes "sortConfig st = Some cfg" and "processedData lc n2s st data = Inr out"
  shows "\<exists>rows. processedData lc n2s (st\<lparr>sortConfig := None\<rparr>) data = Inr rows \<and>
           out = array_sort (compareRows lc n2s cfg) rows"
proof -
  from assms(2) have ok: "\<not> (selectedYear st \<noteq> ''All'' \<and>
      \<not> list_all hasYear (filter (passesBeforeYear st) data))"
    and out: "out = sortStep lc n2s st (filter (passes n2s st) data)"
    by (simp_all add: processedData_cases split: if_splits)
  from ok have "processedData lc n2s (st\<lparr>sortConfig := None\<rparr>) data =
      Inr (filter (passes n2s st) data)"
    by (simp add: processedData_cases passes_sortConfig passesBeforeYear_sortConfig sortStep_def)
  moreover from out assms(1) have "out = array_sort (compareRows lc n2s cfg) (filter (passes n2s st) data)"
    by (simp add: sortStep_def)
  ultimately show ?thesis by blast
qed

lemma sorted_wrt_nullish_last:
  assumes "sorted_wrt (rowsInOrder lc n2s cfg) out" "i < j" "j < length out"
    "is_nullish (field_value (key cfg) (out ! i))"
  shows "is_nullish (field_value (key cfg) (out ! j))"
proof -
  from assms(1-3) have "rowsInOrder lc n2s cfg (out ! i) (out ! j)"
    by (simp add: sorted_wrt_iff_nth_less)
  with assms(4) show ?thesis
    by (simp add: rowsInOrder_def)
qed

text \<open>
  Claim C6.  Let the sort configuration be set, the host's \<open>localeCompare\<close> be a
  consistent comparison, and the engine return \<open>out\<close>.  Then:
  \<^item> two numbers are compared by their difference (reversed when descending);
  \<^item> two other values that are present are compared by \<open>localeCompare\<close> on their
    strings (arguments swapped when descending);
  \<^item> \<open>out\<close> is a rearrangement of the rows that the same state without a sort order
    returns;
  \<^item> \<open>out\<close> is in order: a row with no value in the sort column is followed only by
    rows with no value, whatever the direction, and the rows with a value are in the
    comparator's order;
  \<^item> the sort is stable: for every row, the rows that compare equal to it are in
    \<open>out\<close> in the order in which they were before sorting.
\<close>

theorem sort_semantics:
  assumes "consistent_compare localeCompare"
    and "sortConfig st = Some cfg"
    and "processedData localeCompare numToString st data = Inr out"
  shows "compareValues localeCompare numToString (direction cfg) (JNum x) (JNum y)
           = (if direction cfg = Asc then x - y else y - x) \<and>
         (\<not> is_nullish u \<and> \<not> is_nullish v \<and> u \<noteq> v \<and> \<not> (kind u = 1 \<and> kind v = 1) \<longrightarrow>
            compareValues localeCompare numToString (direction cfg) u v
              = (if direction cfg = Asc
                 then localeCompare (String_val numToString u) (String_val numToString v)
                 else localeCompare (String_val numToString v) (String_val numToString u))) \<and>
         (\<exists>rows. processedData localeCompare numToString (st\<lparr>sortConfig := None\<rparr>) data = Inr rows \<and>
            mset out = mset rows \<and>
            sorted_wrt (rowsInOrder localeCompare numToString cfg) out \<and>
            (\<forall>i j. i < j \<and> j < length out \<and> is_nullish (field_value (key cfg) (out ! i))
               \<longrightarrow> is_nullish (field_value (key cfg) (out ! j))) \<and>
            (\<forall>a. filter (\<lambda>b. compareRows localeCompare numToString cfg a b = 0) out
                = filter (\<lambda>b. compareRows localeCompare numToString cfg a b = 0) rows))"
proof -
  from processedData_sorted_from_unsorted [OF assms(2,3)] obtain rows where
    rows: "processedData localeCompare numToString (st\<lparr>sortConfig := None\<rparr>) data = Inr rows" and
    out: "out = array_sort (compareRows localeCompare numToString cfg) rows"
    by blast
  have m: "mset out = mset rows"
    by (simp add: out array_sort_mset)
  have s: "sorted_wrt (rowsInOrder localeCompare numToString cfg) out"
    unfolding out by (rule array_sort_sorted [OF assms(1)])
  have n: "\<forall>i j. i < j \<and> j < length out \<and> is_nullish (field_value (key cfg) (out ! i))
               \<longrightarrow> is_nullish (field_value (key cfg) (out ! j))"
    using sorted_wrt_nullish_last [OF s] by blast
  have t: "\<forall>a. filter (\<lambda>b. compareRows localeCompare numToString cfg a b = 0) out
                = filter (\<lambda>b. compareRows localeCompare numToString cfg a b = 0) rows"
    unfolding out by (simp add: array_sort_stable [OF assms(1)])
  from rows m s n t have "\<exists>rows. processedData localeCompare numToString (st\<lparr>sortConfig := None\<rparr>) data = Inr rows \<and>
            mset out = mset rows \<and>
            sorted_wrt (rowsInOrder localeCompare numToString cfg) out \<and>
            (\<forall>i j. i < j \<and> j < length out \<and> is_nullish (field_value (key cfg) (out ! i))
               \<longrightarrow> is_nullish (field_value (key cfg) (out ! j))) \<and>
            (\<forall>a. filter (\<lambda>b. compareRows localeCompare numToString cfg a b = 0) out
                = filter (\<lambda>b. compareRows localeCompare numToString cfg a b = 0) rows)"
    by blast
  moreover have "\<not> is_nullish u \<and> \<not> is_nullish v \<and> u \<noteq> v \<and> \<not> (kind u = 1 \<and> kind v = 1) \<longrightarrow>
            compareValues localeCompare numToString (direction cfg) u v
              = (if direction cfg = Asc
                 then localeCompare (String_val numToString u) (String_val numToString v)
                 else localeCompare (String_val numToString v) (String_val numToString u))"
    using compareValues_other [of u v localeCompare numToString "direction cfg"] by blast
  ultimately show ?thesis
    using compareValues_num [of localeCompare numToString "direction cfg" x y] by blast
qed

lemma codeUnitCompare_swap: "(codeUnitCompare s t < 0) = (codeUnitCompare t s > 0)"
  by (induction s t rule: codeUnitCompare.induct) auto

lemma codeUnitCompare_trans:
  "codeUnitCompare s t \<le> 0 \<Longrightarrow> codeUnitCompare t u \<le> 0 \<Longrightarrow> codeUnitCompare s u \<le> 0"
proof (induction s arbitrary: t u)
  case Nil
  then show ?case by (cases u) simp_all
next
  case (Cons c s)
  from Cons.prems(1) obtain d t' where t: "t = d # t'"
    by (cases t) simp_all
  with Cons.prems(2) obtain e u' where u: "u = e # u'"
    by (cases u) simp_all
  from Cons.prems Cons.IH [of t' u'] show ?case
    unfolding t u by (auto split: if_splits)
qed

lemma codeUnitCompare_consistent: "consistent_compare codeUnitCompare"
  unfolding consistent_compare_def
  using codeUnitCompare_swap codeUnitCompare_trans by blast

theorem sort_semantics_witness:
  "consistent_compare codeUnitCompare \<and>
   processedData codeUnitCompare (\<lambda>y. [])
     (initialState\<lparr>sortConfig := Some \<lparr>key = K_Margin, direction = Desc\<rparr>\<rparr>)
     [blank_row\<lparr>Candidate := Val ''A'', Margin := Val 100\<rparr>,
      blank_row\<lparr>Candidate := Val ''B'', Margin := Null\<rparr>,
      blank_row\<lparr>Candidate := Val ''C'', Margin := Val 300\<rparr>,
      blank_row\<lparr>Candidate := Val ''D'', Margin := Val 100\<rparr>]
   = Inr [blank_row\<lparr>Candidate := Val ''C'', Margin := Val 300\<rparr>,
          blank_row\<lparr>Candidate := Val ''A'', Margin := Val 100\<rparr>,
          blank_row\<lparr>Candidate := Val ''D'', Margin := Val 100\<rparr>,
          blank_row\<lparr>Candidate := Val ''B'', Margin := Null\<rparr>] \<and>
   processedData codeUnitCompare (\<lambda>y. [])
     (initialState\<lparr>sortConfig := Some \<lparr>key = K_Margin, direction = Asc\<rparr>\<rparr>)
     [blank_row\<lparr>Candidate := Val ''A'', Margin := Val 100\<rparr>,
      blank_row\<lparr>Candidate := Val ''B'', Margin := Null\<rparr>,
      blank_row\<lparr>Candidate := Val ''C'', Margin := Val 300\<rparr>,
      blank_row\<lparr>Candidate := Val ''D'', Margin := Val 100\<rparr>]
   = Inr [blank_row\<lparr>Candidate := Val ''A'', Margin := Val 100\<rparr>,
          blank_row\<lparr>Candidate := Val ''D'', Margin := Val 100\<rparr>,
          blank_row\<lparr>Candidate := Val ''C'', Margin := Val 300\<rparr>,
          blank_row\<lparr>Candidate := Val ''B'', Margin := Null\<rparr>] \<and>
   processedData codeUnitCompare (\<lambda>y. [])
     (initialState\<lparr>sortConfig := Some \<lparr>key = K_Candidate, direction = Desc\<rparr>\<rparr>)
     [blank_row\<lparr>Candidate := Val ''A'', Margin := Val 100\<rparr>,
      blank_row\<lparr>Candidate := Val ''B'', Margin := Null\<rparr>,
      blank_row\<lparr>Candidate := Val ''C'', Margin := Val 300\<rparr>,
      blank_row\<lparr>Candidate := Val ''D'', Margin := Val 100\<rparr>]
   = Inr [blank_row\<lparr>Candidate := Val ''D'', Margin := Val 100\<rparr>,
          blank_row\<lparr>Candidate := Val ''C'', Margin := Val 300\<rparr>,
          blank_row\<lparr>Candidate := Val ''B'', Margin := Null\<rparr>,
          blank_row\<lparr>Candidate := Val ''A'', Margin := Val 100\<rparr>] \<and>
   sorted_wrt (rowsInOrder codeUnitCompare (\<lambda>y. []) \<lparr>key = K_Margin, direction = Desc\<rparr>)
     [blank_row\<lparr>Candidate := Val ''C'', Margin := Val 300\<rparr>,
      blank_row\<lparr>Candidate := Val ''A'', Margin := Val 100\<rparr>,
      blank_row\<lparr>Candidate := Val ''D'', Margin := Val 100\<rparr>,
      blank_row\<lparr>Candidate := Val ''B'', Margin := Null\<rparr>]"
proof -
  let ?a = "blank_row\<lparr>Candidate := Val ''A'', Margin := Val 100\<rparr>"
  let ?b = "blank_row\<lparr>Candidate := Val ''B'', Margin := Null\<rparr>"
  let ?c = "blank_row\<lparr>Candidate := Val ''C'', Margin := Val 300\<rparr>"
  let ?d = "blank_row\<lparr>Candidate := Val ''D'', Margin := Val 100\<rparr>"
  let ?n2s = "\<lambda>y::real. []::string"
  let ?desc = "\<lparr>key = K_Margin, direction = Desc\<rparr>"
  let ?st = "initialState\<lparr>sortConfig := Some ?desc\<rparr>"
  note defs = pipeline_defs blank_row_fields array_sort_def compareRows_def compareValues_def
  have e1: "processedData codeUnitCompare ?n2s ?st [?a, ?b, ?c, ?d] = Inr [?c, ?a, ?d, ?b]"
    by (simp add: defs)
  have e2: "processedData codeUnitCompare ?n2s
      (initialState\<lparr>sortConfig := Some \<lparr>key = K_Margin, direction = Asc\<rparr>\<rparr>) [?a, ?b, ?c, ?d]
      = Inr [?a, ?d, ?c, ?b]"
    by (simp add: defs)
  have e3: "processedData codeUnitCompare ?n2s
      (initialState\<lparr>sortConfig := Some \<lparr>key = K_Candidate, direction = Desc\<rparr>\<rparr>) [?a, ?b, ?c, ?d]
      = Inr [?d, ?c, ?b, ?a]"
    by (simp add: defs)
  have cfg: "sortConfig ?st = Some ?desc"
    by (simp add: initialState_def)
  from sort_semantics [OF codeUnitCompare_consistent cfg e1]
  have "sorted_wrt (rowsInOrder codeUnitCompare ?n2s ?desc) [?c, ?a, ?d, ?b]"
    by blast
  with codeUnitCompare_consistent e1 e2 e3 show ?thesis
    by (intro conjI)
qed

end
